theory Spec2Isabelle
  imports Complex_Main
begin

section \<open>Ecological inference: the model builder and the sampler wrapper\<close>

text \<open>
  A shallow embedding of \<^verbatim>\<open>inference.py\<close>: \<^verbatim>\<open>ecological_inference_model\<close>, which
  declares a hierarchical model from three per-precinct arrays, and
  \<^verbatim>\<open>run_ecological_inference\<close>, which derives those arrays from a table and hands the
  model to the sampler.
\<close>

subsection \<open>Errors\<close>

text \<open>
  \<open>TypeError\<close> is the exception \<^verbatim>\<open>ecological_inference_model\<close> raises itself (and the one
  Python raises for a keyword given twice in a call); \<open>SamplingError\<close> stands for any
  failure raised inside the sampling engine.
\<close>

datatype error = TypeError string | SamplingError string

subsection \<open>Floating-point values\<close>

text \<open>
  A float64 array element is a finite number (taken as a real: rounding is not modelled),
  an infinity or NaN. The operations below are the elementwise operations of the array
  library on such values; signed zeros are not distinguished.
\<close>

datatype fval = Fin real | PosInf | NegInf | NaN

fun fneg :: "fval \<Rightarrow> fval" where
  "fneg (Fin x) = Fin (- x)"
| "fneg PosInf = NegInf"
| "fneg NegInf = PosInf"
| "fneg NaN = NaN"

fun fadd :: "fval \<Rightarrow> fval \<Rightarrow> fval" where
  "fadd NaN _ = NaN"
| "fadd _ NaN = NaN"
| "fadd (Fin x) (Fin y) = Fin (x + y)"
| "fadd (Fin x) PosInf = PosInf"
| "fadd (Fin x) NegInf = NegInf"
| "fadd PosInf (Fin y) = PosInf"
| "fadd NegInf (Fin y) = NegInf"
| "fadd PosInf PosInf = PosInf"
| "fadd NegInf NegInf = NegInf"
| "fadd PosInf NegInf = NaN"
| "fadd NegInf PosInf = NaN"

definition fsub :: "fval \<Rightarrow> fval \<Rightarrow> fval" where
  "fsub a b = fadd a (fneg b)"

text \<open>The product of an infinity and a finite number: the sign decides, and zero gives NaN.\<close>

definition inf_times :: "bool \<Rightarrow> real \<Rightarrow> fval" where
  "inf_times positive y =
     (if y = 0 then NaN else if (0 < y) = positive then PosInf else NegInf)"

fun fmul :: "fval \<Rightarrow> fval \<Rightarrow> fval" where
  "fmul NaN _ = NaN"
| "fmul _ NaN = NaN"
| "fmul (Fin x) (Fin y) = Fin (x * y)"
| "fmul (Fin x) PosInf = inf_times True x"
| "fmul (Fin x) NegInf = inf_times False x"
| "fmul PosInf (Fin y) = inf_times True y"
| "fmul NegInf (Fin y) = inf_times False y"
| "fmul PosInf PosInf = PosInf"
| "fmul NegInf NegInf = PosInf"
| "fmul PosInf NegInf = NegInf"
| "fmul NegInf PosInf = NegInf"

text \<open>
  Division of two finite column entries, as the table library divides float columns:
  a zero divisor raises nothing and gives an infinity, or NaN for \<open>0 / 0\<close>.
\<close>

definition true_divide :: "real \<Rightarrow> real \<Rightarrow> fval" where
  "true_divide x y =
     (if y \<noteq> 0 then Fin (x / y)
      else if x = 0 then NaN
      else if 0 < x then PosInf else NegInf)"

definition is_finite :: "fval \<Rightarrow> bool" where
  "is_finite v = (case v of Fin _ \<Rightarrow> True | _ \<Rightarrow> False)"

subsection \<open>Symbolic tensors and the declared nodes of a model\<close>

text \<open>
  The expressions the builder hands to the modelling library: a constant array, a named
  random variable, an indexed element \<^verbatim>\<open>alpha[0]\<close>, and elementwise products and sums.
\<close>

datatype tensor =
    Constant "fval list"
  | Var string
  | Subtensor tensor nat
  | Mul tensor tensor
  | Add tensor tensor

text \<open>
  The four kinds of declaration the builder makes, with the keyword arguments it passes:
  \<^verbatim>\<open>Exponential(lam, shape)\<close>, \<^verbatim>\<open>Beta(alpha, beta, shape)\<close>,
  \<^verbatim>\<open>Deterministic(var)\<close> and \<^verbatim>\<open>Binomial(n, p, shape, observed)\<close>.
\<close>

text \<open>
  The two data arrays of the likelihood are stored as they are given; \<open>'a\<close> is the type
  of their elements.
\<close>

datatype 'a dist =
    Exponential real nat
  | Beta tensor tensor nat
  | Deterministic tensor
  | Binomial "'a list" tensor nat "'a list"

text \<open>A model is the list of its named declarations, in the order they were made.\<close>

type_synonym 'a model = "(string \<times> 'a dist) list"

subsection \<open>The model builder\<close>

definition length_error_message :: string where
  "length_error_message =
     ''Each of `num_votes_for_group`, `voting_population`, and `pct_minority` must'' @
     ''be an iterable of the same length (which is the number of precincts)''"

definition ecological_inference_model ::
  "'a list \<Rightarrow> 'a list \<Rightarrow> fval list \<Rightarrow> real \<Rightarrow> string \<Rightarrow> error + 'a model" where
  "ecological_inference_model num_votes_for_group voting_population pct_minority lam group_name =
     (let n_precincts = length voting_population in
      if \<not> list_all (\<lambda>len_data. len_data = n_precincts)
               [length num_votes_for_group, length voting_population, length pct_minority]
      then Inl (TypeError length_error_message)
      else
        let alpha = Var ''alpha'';
            beta = Var ''beta'';
            pct_minority_voting_dem = Var (''pct_minority_voting_'' @ group_name);
            pct_majority_voting_dem = Var (''pct_majority_voting_'' @ group_name);
            est_voting_dem =
              Add (Mul (Constant pct_minority) pct_minority_voting_dem)
                  (Mul (Constant (map (fsub (Fin 1)) pct_minority)) pct_majority_voting_dem)
        in Inr
          [(''alpha'', Exponential lam 2),
           (''beta'', Exponential lam 2),
           (''pct_minority_voting_'' @ group_name,
              Beta (Subtensor alpha 0) (Subtensor beta 0) n_precincts),
           (''pct_majority_voting_'' @ group_name,
              Beta (Subtensor alpha 1) (Subtensor beta 1) n_precincts),
           (''est_voting_'' @ group_name, Deterministic est_voting_dem),
           (''votes_for_'' @ group_name,
              Binomial voting_population est_voting_dem n_precincts num_votes_for_group)])"

subsection \<open>What a declared node means at a draw\<close>

text \<open>
  A draw (a point) gives every free random variable a vector of finite numbers. A tensor
  evaluates at a point to a vector; a scalar is a vector of length one. Elementwise
  operations need operands of equal length (every tensor the builder makes has the
  length \<open>n_precincts\<close>).
\<close>

type_synonym point = "string \<rightharpoonup> real list"

definition elemwise ::
  "(fval \<Rightarrow> fval \<Rightarrow> fval) \<Rightarrow> fval list \<Rightarrow> fval list \<Rightarrow> fval list option" where
  "elemwise f xs ys = (if length xs = length ys then Some (map2 f xs ys) else None)"

fun eval_tensor :: "point \<Rightarrow> tensor \<Rightarrow> fval list option" where
  "eval_tensor pt (Constant xs) = Some xs"
| "eval_tensor pt (Var v) = map_option (map Fin) (pt v)"
| "eval_tensor pt (Subtensor t k) =
     (case eval_tensor pt t of
        None \<Rightarrow> None
      | Some xs \<Rightarrow> if k < length xs then Some [xs ! k] else None)"
| "eval_tensor pt (Mul a b) =
     (case eval_tensor pt a of
        None \<Rightarrow> None
      | Some xs \<Rightarrow> (case eval_tensor pt b of None \<Rightarrow> None | Some ys \<Rightarrow> elemwise fmul xs ys))"
| "eval_tensor pt (Add a b) =
     (case eval_tensor pt a of
        None \<Rightarrow> None
      | Some xs \<Rightarrow> (case eval_tensor pt b of None \<Rightarrow> None | Some ys \<Rightarrow> elemwise fadd xs ys))"

text \<open>Element \<open>i\<close> of a vector, and of a parameter, where a scalar is shared by all elements.\<close>

definition nth_opt :: "'a list \<Rightarrow> nat \<Rightarrow> 'a option" where
  "nth_opt xs i = (if i < length xs then Some (xs ! i) else None)"

definition param_at :: "'a list \<Rightarrow> nat \<Rightarrow> 'a option" where
  "param_at xs i = (if length xs = 1 then Some (xs ! 0) else nth_opt xs i)"

text \<open>
  The law of one element of a node: the distribution with its parameters evaluated at
  the point, the value of a deterministic quantity, or the likelihood term with its
  observed datum.
\<close>

datatype 'a elem =
    ExponentialAt real
  | BetaAt fval fval
  | ValueAt fval
  | BinomialAt 'a fval 'a

fun elem_of :: "point \<Rightarrow> 'a dist \<Rightarrow> nat \<Rightarrow> 'a elem option" where
  "elem_of pt (Exponential lam shape) i =
     (if i < shape then Some (ExponentialAt lam) else None)"
| "elem_of pt (Beta a b shape) i =
     (if i < shape then
        (case Option.bind (eval_tensor pt a) (\<lambda>xs. param_at xs i) of
           None \<Rightarrow> None
         | Some x \<Rightarrow>
            (case Option.bind (eval_tensor pt b) (\<lambda>ys. param_at ys i) of
               None \<Rightarrow> None
             | Some y \<Rightarrow> Some (BetaAt x y)))
      else None)"
| "elem_of pt (Deterministic t) i =
     map_option ValueAt (Option.bind (eval_tensor pt t) (\<lambda>xs. nth_opt xs i))"
| "elem_of pt (Binomial n p shape observed) i =
     (if i < shape then
        (case param_at n i of
           None \<Rightarrow> None
         | Some k \<Rightarrow>
            (case Option.bind (eval_tensor pt p) (\<lambda>xs. param_at xs i) of
               None \<Rightarrow> None
             | Some q \<Rightarrow> map_option (BinomialAt k q) (nth_opt observed i)))
      else None)"

definition node_at :: "point \<Rightarrow> 'a model \<Rightarrow> string \<Rightarrow> nat \<Rightarrow> 'a elem option" where
  "node_at pt m name i = (case map_of m name of None \<Rightarrow> None | Some d \<Rightarrow> elem_of pt d i)"

text \<open>The identifiers a call of the builder declares; none when it raised.\<close>

definition var_names :: "error + 'a model \<Rightarrow> string list" where
  "var_names r = (case r of Inl _ \<Rightarrow> [] | Inr m \<Rightarrow> map fst m)"

subsection \<open>Table entries and their arithmetic\<close>

text \<open>
  A column of the table holds int64 or float64 numbers, and every entry carries the
  dtype of its column. Arithmetic on two int64 entries stays in int64 and wraps around;
  as soon as one operand is a float64 the other is converted and the operation is the
  float64 one. A float64 result beyond the largest finite float64 overflows to an
  infinity (rounding below that bound is not modelled). True division always converts
  both operands and gives a float64.
\<close>

datatype cell = IntCell int | FloatCell fval

definition wrap64 :: "int \<Rightarrow> int" where
  "wrap64 n = (n + 2 ^ 63) mod 2 ^ 64 - 2 ^ 63"

definition max_float :: real where
  "max_float = (2 ^ 53 - 1) * 2 ^ 971"

fun saturate :: "fval \<Rightarrow> fval" where
  "saturate (Fin r) =
     (if max_float < r then PosInf else if r < - max_float then NegInf else Fin r)"
| "saturate PosInf = PosInf"
| "saturate NegInf = NegInf"
| "saturate NaN = NaN"

fun fdiv :: "fval \<Rightarrow> fval \<Rightarrow> fval" where
  "fdiv NaN _ = NaN"
| "fdiv _ NaN = NaN"
| "fdiv (Fin x) (Fin y) = true_divide x y"
| "fdiv (Fin x) PosInf = Fin 0"
| "fdiv (Fin x) NegInf = Fin 0"
| "fdiv PosInf (Fin y) = (if 0 \<le> y then PosInf else NegInf)"
| "fdiv NegInf (Fin y) = (if 0 \<le> y then NegInf else PosInf)"
| "fdiv PosInf PosInf = NaN"
| "fdiv PosInf NegInf = NaN"
| "fdiv NegInf PosInf = NaN"
| "fdiv NegInf NegInf = NaN"

fun as_float :: "cell \<Rightarrow> fval" where
  "as_float (IntCell n) = Fin (real_of_int n)"
| "as_float (FloatCell v) = v"

fun cell_add :: "cell \<Rightarrow> cell \<Rightarrow> cell" where
  "cell_add (IntCell a) (IntCell b) = IntCell (wrap64 (a + b))"
| "cell_add x y = FloatCell (saturate (fadd (as_float x) (as_float y)))"

fun cell_sub :: "cell \<Rightarrow> cell \<Rightarrow> cell" where
  "cell_sub (IntCell a) (IntCell b) = IntCell (wrap64 (a - b))"
| "cell_sub x y = FloatCell (saturate (fsub (as_float x) (as_float y)))"

definition cell_truediv :: "cell \<Rightarrow> cell \<Rightarrow> fval" where
  "cell_truediv x y = saturate (fdiv (as_float x) (as_float y))"

subsection \<open>The sampler wrapper\<close>

text \<open>
  One row of the table, with the four columns the wrapper reads. A table is a list of
  rows, so its columns have one length.
\<close>

record row =
  Total :: cell
  White_Alone :: cell
  DEM :: cell
  REP :: cell

type_synonym dataframe = "row list"

text \<open>Values passed as arguments of the sampling call, and the keyword dictionary.\<close>

datatype pyval =
    PyInt int
  | PyFloat real
  | PyStr string
  | PyBool bool
  | PyNone
  | PyDict "(string \<times> pyval) list"

type_synonym kwargs = "string \<rightharpoonup> pyval"

text \<open>
  The body of the sampling function is not part of this code: it is a parameter. It
  receives the model of the enclosing \<^verbatim>\<open>with\<close> block, the positional arguments,
  the keyword arguments and its own state (random generator and the like), and returns
  a trace or fails.
\<close>

type_synonym ('s, 't) sampler =
  "cell model \<Rightarrow> pyval list \<Rightarrow> kwargs \<Rightarrow> 's \<Rightarrow> (error + 't) \<times> 's"

definition pct_minority_of :: "dataframe \<Rightarrow> fval list" where
  "pct_minority_of district_df =
     map (\<lambda>r. cell_truediv (cell_sub (Total r) (White_Alone r)) (Total r)) district_df"

definition voting_population_of :: "dataframe \<Rightarrow> cell list" where
  "voting_population_of district_df = map (\<lambda>r. cell_add (DEM r) (REP r)) district_df"

definition num_voting_for_dems_of :: "dataframe \<Rightarrow> cell list" where
  "num_voting_for_dems_of district_df = map DEM district_df"

text \<open>
  The two TypeErrors of the call itself. The call names \<^verbatim>\<open>nuts_kwargs\<close> and unpacks
  the caller's dictionary beside it, so a dictionary with this key gives the keyword
  twice. The first parameter of the sampling function is named \<^verbatim>\<open>draws\<close> and is
  bound by the positional 5000, so a dictionary with the key \<^verbatim>\<open>draws\<close> gives that
  argument twice. Both are raised before the body of the sampling function is entered.
\<close>

definition quoted :: "string \<Rightarrow> string" where
  "quoted name = CHR 0x27 # name @ [CHR 0x27]"

definition duplicate_keyword_message :: string where
  "duplicate_keyword_message =
     ''sample() got multiple values for keyword argument '' @ quoted ''nuts_kwargs''"

definition duplicate_argument_message :: string where
  "duplicate_argument_message =
     ''sample() got multiple values for argument '' @ quoted ''draws''"

text \<open>
  The builder is called with three arguments, so \<open>lam\<close> and \<open>group_name\<close> take their
  defaults.
\<close>

definition run_ecological_inference ::
  "('s, 't) sampler \<Rightarrow> dataframe \<Rightarrow> kwargs \<Rightarrow> 's \<Rightarrow> (error + 't) \<times> 's" where
  "run_ecological_inference sample district_df sample_kwargs s =
     (let pct_minority = pct_minority_of district_df;
          voting_population = voting_population_of district_df;
          num_voting_for_dems = num_voting_for_dems_of district_df
      in case ecological_inference_model num_voting_for_dems voting_population pct_minority
                0.5 ''dem'' of
           Inl e \<Rightarrow> (Inl e, s)
         | Inr model \<Rightarrow>
             if ''nuts_kwargs'' \<in> dom sample_kwargs
             then (Inl (TypeError duplicate_keyword_message), s)
             else if ''draws'' \<in> dom sample_kwargs
             then (Inl (TypeError duplicate_argument_message), s)
             else sample model [PyInt 5000]
                    (sample_kwargs(''nuts_kwargs'' \<mapsto> PyDict [(''target_accept'', PyFloat 0.98)]))
                    s)"

text \<open>A sampler instrumented to count how often it is called.\<close>

definition counting :: "('s, 't) sampler \<Rightarrow> ('s \<times> nat, 't) sampler" where
  "counting sample model args kws =
     (\<lambda>(s, calls). case sample model args kws s of (r, s') \<Rightarrow> (r, (s', Suc calls)))"

text \<open>
  Two engines to run the wrapper on: one returns the names of the model's variables as
  its trace, the other fails. Both count their calls in the state.
\<close>

definition names_sampler :: "(nat, string list) sampler" where
  "names_sampler model args kws calls = (Inr (map fst model), Suc calls)"

definition failing_sampler :: "(nat, string list) sampler" where
  "failing_sampler model args kws calls = (Inl (SamplingError ''Bad initial energy''), Suc calls)"

section \<open>Length validation\<close>

text \<open>
  C1: when the three arrays do not all have the same length, the builder fails with the
  TypeError of the length check, and no model is built; when the three lengths are
  equal, the builder raises no error at all.
\<close>

theorem length_validation:
  "(\<not> (length num_votes_for_group = length voting_population \<and>
        length pct_minority = length voting_population) \<longrightarrow>
      ecological_inference_model num_votes_for_group voting_population pct_minority lam group_name
        = Inl (TypeError length_error_message)) \<and>
   (length num_votes_for_group = length voting_population \<and>
    length pct_minority = length voting_population \<longrightarrow>
      (\<forall>e. ecological_inference_model num_votes_for_group voting_population pct_minority lam
             group_name \<noteq> Inl e))"
  by (simp add: ecological_inference_model_def Let_def)

theorem length_validation_witness:
  "ecological_inference_model [50, 60 :: real] [100 :: real] [Fin 0.3] 0.5 ''dem''
     = Inl (TypeError length_error_message) \<and>
   (\<forall>e. ecological_inference_model [50 :: real] [100 :: real] [Fin 0.3] 0.5 ''dem'' \<noteq> Inl e)"
  using length_validation [of "[50, 60 :: real]" "[100 :: real]" "[Fin 0.3]" "0.5" "''dem''"]
        length_validation [of "[50 :: real]" "[100 :: real]" "[Fin 0.3]" "0.5" "''dem''"]
  by simp

section \<open>The built model\<close>

lemma builder_ok:
  assumes "length num_votes_for_group = length voting_population"
      and "length pct_minority = length voting_population"
  shows "ecological_inference_model num_votes_for_group voting_population pct_minority lam group_name =
     Inr [(''alpha'', Exponential lam 2),
          (''beta'', Exponential lam 2),
          (''pct_minority_voting_'' @ group_name,
             Beta (Subtensor (Var ''alpha'') 0) (Subtensor (Var ''beta'') 0) (length voting_population)),
          (''pct_majority_voting_'' @ group_name,
             Beta (Subtensor (Var ''alpha'') 1) (Subtensor (Var ''beta'') 1) (length voting_population)),
          (''est_voting_'' @ group_name,
             Deterministic
               (Add (Mul (Constant pct_minority) (Var (''pct_minority_voting_'' @ group_name)))
                    (Mul (Constant (map (fsub (Fin 1)) pct_minority))
                         (Var (''pct_majority_voting_'' @ group_name))))),
          (''votes_for_'' @ group_name,
             Binomial voting_population
               (Add (Mul (Constant pct_minority) (Var (''pct_minority_voting_'' @ group_name)))
                    (Mul (Constant (map (fsub (Fin 1)) pct_minority))
                         (Var (''pct_majority_voting_'' @ group_name))))
               (length voting_population) num_votes_for_group)]"
  using assms by (simp add: ecological_inference_model_def Let_def)

lemma eval_est:
  assumes "pt (''pct_minority_voting_'' @ g) = Some a"
      and "pt (''pct_majority_voting_'' @ g) = Some b"
      and "length a = length pm" and "length b = length pm"
  shows "eval_tensor pt
           (Add (Mul (Constant pm) (Var (''pct_minority_voting_'' @ g)))
                (Mul (Constant (map (fsub (Fin 1)) pm)) (Var (''pct_majority_voting_'' @ g))))
         = Some (map (\<lambda>i. fadd (fmul (pm ! i) (Fin (a ! i)))
                                (fmul (fsub (Fin 1) (pm ! i)) (Fin (b ! i)))) [0..<length pm])"
  using assms by (auto simp: elemwise_def intro!: nth_equalityI)

lemma map_of_est:
  "map_of [(''alpha'', d1), (''beta'', d2), (''pct_minority_voting_'' @ g, d3),
           (''pct_majority_voting_'' @ g, d4), (''est_voting_'' @ g, d5),
           (''votes_for_'' @ g, d6)] (''est_voting_'' @ g) = Some d5"
  by simp

lemma map_of_votes:
  "map_of [(''alpha'', d1), (''beta'', d2), (''pct_minority_voting_'' @ g, d3),
           (''pct_majority_voting_'' @ g, d4), (''est_voting_'' @ g, d5),
           (''votes_for_'' @ g, d6)] (''votes_for_'' @ g) = Some d6"
  by simp

lemma map_of_maj:
  "map_of [(''alpha'', d1), (''beta'', d2), (''pct_minority_voting_'' @ g, d3),
           (''pct_majority_voting_'' @ g, d4), (''est_voting_'' @ g, d5),
           (''votes_for_'' @ g, d6)] (''pct_majority_voting_'' @ g) = Some d4"
  by simp

lemma builder_lengths:
  assumes "ecological_inference_model nv vp pm lam g = Inr m"
  shows "length nv = length vp \<and> length pm = length vp"
  using assms by (auto simp: ecological_inference_model_def Let_def split: if_splits)

lemma est_voting_at:
  assumes m: "ecological_inference_model nv vp pm lam g = Inr m"
      and a: "pt (''pct_minority_voting_'' @ g) = Some a"
      and b: "pt (''pct_majority_voting_'' @ g) = Some b"
      and la: "length a = length vp" and lb: "length b = length vp"
      and i: "i < length vp"
  shows "node_at pt m (''est_voting_'' @ g) i =
           Some (ValueAt (fadd (fmul (pm ! i) (Fin (a ! i)))
                               (fmul (fsub (Fin 1) (pm ! i)) (Fin (b ! i)))))"
proof -
  let ?E = "Add (Mul (Constant pm) (Var (''pct_minority_voting_'' @ g)))
                (Mul (Constant (map (fsub (Fin 1)) pm)) (Var (''pct_majority_voting_'' @ g)))"
  let ?v = "\<lambda>i. fadd (fmul (pm ! i) (Fin (a ! i))) (fmul (fsub (Fin 1) (pm ! i)) (Fin (b ! i)))"
  have len: "length nv = length vp" "length pm = length vp"
    using builder_lengths [OF m] by simp_all
  have ev: "eval_tensor pt ?E = Some (map ?v [0..<length pm])"
    using la lb len by (intro eval_est [OF a b]) simp_all
  let ?M = "[(''alpha'', Exponential lam 2),
          (''beta'', Exponential lam 2),
          (''pct_minority_voting_'' @ g,
             Beta (Subtensor (Var ''alpha'') 0) (Subtensor (Var ''beta'') 0) (length vp)),
          (''pct_majority_voting_'' @ g,
             Beta (Subtensor (Var ''alpha'') 1) (Subtensor (Var ''beta'') 1) (length vp)),
          (''est_voting_'' @ g, Deterministic ?E),
          (''votes_for_'' @ g, Binomial vp ?E (length vp) nv)]"
  from m have "Inr ?M = (Inr m :: error + _ model)"
    unfolding builder_ok [OF len] .
  then have m_eq: "m = ?M" by (simp only: sum.inject)
  have "node_at pt m (''est_voting_'' @ g) i = elem_of pt (Deterministic ?E) i"
    unfolding node_at_def m_eq by (simp only: map_of_est option.case)
  also have "\<dots> = map_option ValueAt (nth_opt (map ?v [0..<length pm]) i)"
    by (simp only: elem_of.simps ev bind.bind_lunit)
  also have "\<dots> = Some (ValueAt (?v i))"
    using i len by (simp add: nth_opt_def)
  finally show ?thesis .
qed


section \<open>The deterministic estimate\<close>

text \<open>
  C2: for every precinct \<open>i\<close>, every draw of the two latent rate vectors and every
  minority-fraction vector, element \<open>i\<close> of the deterministic quantity
  \<^verbatim>\<open>est_voting_<group>\<close> of the built model is
  \<open>minority_fraction[i] * minority_rate[i] + (1 - minority_fraction[i]) * majority_rate[i]\<close>,
  in the arithmetic of the array elements; for a finite fraction \<open>p\<close> that is the
  number \<open>p * minority_rate[i] + (1 - p) * majority_rate[i]\<close>.
\<close>

theorem deterministic_quantity:
  assumes "length nv = length vp" and "length pm = length vp"
      and "pt (''pct_minority_voting_'' @ g) = Some a"
      and "pt (''pct_majority_voting_'' @ g) = Some b"
      and "length a = length vp" and "length b = length vp"
      and "i < length vp"
  shows "\<exists>m. ecological_inference_model nv vp pm lam g = Inr m \<and>
           node_at pt m (''est_voting_'' @ g) i =
             Some (ValueAt (fadd (fmul (pm ! i) (Fin (a ! i)))
                                 (fmul (fsub (Fin 1) (pm ! i)) (Fin (b ! i))))) \<and>
           (\<forall>p. pm ! i = Fin p \<longrightarrow>
              node_at pt m (''est_voting_'' @ g) i =
                Some (ValueAt (Fin (p * a ! i + (1 - p) * b ! i))))"
proof -
  obtain m where m: "ecological_inference_model nv vp pm lam g = Inr m"
    using builder_ok [OF assms(1,2)] by blast
  have at: "node_at pt m (''est_voting_'' @ g) i =
             Some (ValueAt (fadd (fmul (pm ! i) (Fin (a ! i)))
                                 (fmul (fsub (Fin 1) (pm ! i)) (Fin (b ! i)))))"
    by (rule est_voting_at [OF m assms(3-7)])
  have "node_at pt m (''est_voting_'' @ g) i =
          Some (ValueAt (Fin (p * a ! i + (1 - p) * b ! i)))" if "pm ! i = Fin p" for p
    unfolding at that by (simp add: fsub_def)
  with m at show ?thesis by blast
qed

theorem deterministic_quantity_witness:
  "\<exists>m. ecological_inference_model [50, 30 :: real] [100, 80 :: real] [Fin 0.3, Fin 0.5] 0.5 ''dem'' = Inr m \<and>
       node_at [''pct_minority_voting_dem'' \<mapsto> [0.9, 0.8],
                ''pct_majority_voting_dem'' \<mapsto> [0.2, 0.4]] m ''est_voting_dem'' 1
         = Some (ValueAt (Fin 0.6))"
  using deterministic_quantity [of "[50, 30 :: real]" "[100, 80 :: real]" "[Fin 0.3, Fin 0.5]"
          "[''pct_minority_voting_dem'' \<mapsto> [0.9, 0.8], ''pct_majority_voting_dem'' \<mapsto> [0.2, 0.4]]"
          "''dem''" "[0.9, 0.8]" "[0.2, 0.4]" 1 "0.5"]
  by (simp add: fsub_def) blast


lemma param_at_nth: "i < length xs \<Longrightarrow> param_at xs i = Some (xs ! i)"
  by (auto simp: param_at_def nth_opt_def)

lemma param_at_scalar: "param_at [x] i = Some x"
  by (simp add: param_at_def)

text \<open>
  C7: in a precinct whose minority fraction is 0.0 the estimate is the majority rate of
  that precinct, and in one whose minority fraction is 1.0 it is the minority rate, for
  every draw of the latent rate vectors.
\<close>

theorem degenerate_fractions:
  assumes "length nv = length vp" and "length pm = length vp"
      and "pt (''pct_minority_voting_'' @ g) = Some a"
      and "pt (''pct_majority_voting_'' @ g) = Some b"
      and "length a = length vp" and "length b = length vp"
      and "i < length vp"
  shows "\<exists>m. ecological_inference_model nv vp pm lam g = Inr m \<and>
           (pm ! i = Fin 0 \<longrightarrow>
              node_at pt m (''est_voting_'' @ g) i = Some (ValueAt (Fin (b ! i)))) \<and>
           (pm ! i = Fin 1 \<longrightarrow>
              node_at pt m (''est_voting_'' @ g) i = Some (ValueAt (Fin (a ! i))))"
proof -
  obtain m where m: "ecological_inference_model nv vp pm lam g = Inr m"
    using builder_ok [OF assms(1,2)] by blast
  have at: "node_at pt m (''est_voting_'' @ g) i =
             Some (ValueAt (fadd (fmul (pm ! i) (Fin (a ! i)))
                                 (fmul (fsub (Fin 1) (pm ! i)) (Fin (b ! i)))))"
    by (rule est_voting_at [OF m assms(3-7)])
  have zero: "node_at pt m (''est_voting_'' @ g) i = Some (ValueAt (Fin (b ! i)))"
    if "pm ! i = Fin 0"
    unfolding at that by (simp add: fsub_def)
  have one: "node_at pt m (''est_voting_'' @ g) i = Some (ValueAt (Fin (a ! i)))"
    if "pm ! i = Fin 1"
    unfolding at that by (simp add: fsub_def)
  from m zero one show ?thesis by blast
qed

theorem degenerate_fractions_witness:
  "(\<exists>m. ecological_inference_model [10, 20 :: real] [40, 50 :: real] [Fin 0, Fin 1] 0.5 ''dem'' = Inr m \<and>
        node_at [''pct_minority_voting_dem'' \<mapsto> [0.9, 0.8],
                 ''pct_majority_voting_dem'' \<mapsto> [0.2, 0.4]] m ''est_voting_dem'' 0
          = Some (ValueAt (Fin 0.2))) \<and>
   (\<exists>m. ecological_inference_model [10, 20 :: real] [40, 50 :: real] [Fin 0, Fin 1] 0.5 ''dem'' = Inr m \<and>
        node_at [''pct_minority_voting_dem'' \<mapsto> [0.9, 0.8],
                 ''pct_majority_voting_dem'' \<mapsto> [0.2, 0.4]] m ''est_voting_dem'' 1
          = Some (ValueAt (Fin 0.8)))"
  using degenerate_fractions [of "[10, 20 :: real]" "[40, 50 :: real]" "[Fin 0, Fin 1]"
          "[''pct_minority_voting_dem'' \<mapsto> [0.9, 0.8], ''pct_majority_voting_dem'' \<mapsto> [0.2, 0.4]]"
          "''dem''" "[0.9, 0.8]" "[0.2, 0.4]" 0 "0.5"]
        degenerate_fractions [of "[10, 20 :: real]" "[40, 50 :: real]" "[Fin 0, Fin 1]"
          "[''pct_minority_voting_dem'' \<mapsto> [0.9, 0.8], ''pct_majority_voting_dem'' \<mapsto> [0.2, 0.4]]"
          "''dem''" "[0.9, 0.8]" "[0.2, 0.4]" 1 "0.5"]
  by simp

section \<open>No check of the vote counts against the voting population\<close>

text \<open>
  C8: the builder checks lengths only. For every triple of arrays of one length it
  returns a model, also when some precinct has more votes for the group than voters.
\<close>

theorem no_domain_check:
  assumes "length nv = length vp" and "length pm = length vp"
  shows "\<exists>m. ecological_inference_model nv vp pm lam g = Inr m"
  using builder_ok [OF assms] by blast

theorem no_domain_check_witness:
  "(100 :: real) < 150 \<and>
   (\<exists>m. ecological_inference_model [150 :: real] [100 :: real] [Fin 0.3] 0.5 ''dem'' = Inr m)"
  using no_domain_check [of "[150 :: real]" "[100 :: real]" "[Fin 0.3]" "0.5" "''dem''"]
  by simp

lemma map_of_alpha:
  "map_of [(''alpha'', d1), (''beta'', d2), (''pct_minority_voting_'' @ g, d3),
           (''pct_majority_voting_'' @ g, d4), (''est_voting_'' @ g, d5),
           (''votes_for_'' @ g, d6)] ''alpha'' = Some d1"
  by simp

lemma map_of_beta:
  "map_of [(''alpha'', d1), (''beta'', d2), (''pct_minority_voting_'' @ g, d3),
           (''pct_majority_voting_'' @ g, d4), (''est_voting_'' @ g, d5),
           (''votes_for_'' @ g, d6)] ''beta'' = Some d2"
  by simp

lemma map_of_min:
  "map_of [(''alpha'', d1), (''beta'', d2), (''pct_minority_voting_'' @ g, d3),
           (''pct_majority_voting_'' @ g, d4), (''est_voting_'' @ g, d5),
           (''votes_for_'' @ g, d6)] (''pct_minority_voting_'' @ g) = Some d3"
  by simp

lemma elem_of_Exponential:
  "elem_of pt (Exponential lam 2) k = (if k < 2 then Some (ExponentialAt lam) else None)"
  by simp

lemma elem_of_Beta_scalar:
  assumes "pt u = Some al" and "j < length al" and "pt v = Some bl" and "j < length bl"
  shows "elem_of pt (Beta (Subtensor (Var u) j) (Subtensor (Var v) j) n) i =
           (if i < n then Some (BetaAt (Fin (al ! j)) (Fin (bl ! j))) else None)"
  using assms by (simp add: param_at_scalar)

lemma elem_of_Binomial_vec:
  assumes "eval_tensor pt p = Some ps" and "length ps = length vp" and "length nv = length vp"
  shows "elem_of pt (Binomial vp p (length vp) nv) i =
           (if i < length vp then Some (BinomialAt (vp ! i) (ps ! i) (nv ! i)) else None)"
  using assms by (simp add: param_at_nth nth_opt_def)

section \<open>The three levels of the model\<close>

text \<open>
  C3: the built model declares exactly six quantities. \<open>alpha\<close> and \<open>beta\<close> are pairs
  of Exponential(lam) hyperpriors: element 0 of each for the minority family, element 1
  for the majority family. The two latent rate vectors have length \<open>n_precincts\<close>, and
  each element is Beta-distributed with the shared pair of its group. The observed node
  has length \<open>n_precincts\<close>; precinct \<open>i\<close> is Binomial with \<open>n = voting_population[i]\<close>,
  \<open>p = est[i]\<close>, observed at \<open>num_votes_for_group[i]\<close>.
\<close>

theorem model_structure:
  assumes len: "length nv = length vp" "length pm = length vp"
      and al: "pt ''alpha'' = Some al" "length al = 2"
      and bl: "pt ''beta'' = Some bl" "length bl = 2"
      and a: "pt (''pct_minority_voting_'' @ g) = Some a" "length a = length vp"
      and b: "pt (''pct_majority_voting_'' @ g) = Some b" "length b = length vp"
  shows "\<exists>m. ecological_inference_model nv vp pm lam g = Inr m \<and>
           map fst m = [''alpha'', ''beta'', ''pct_minority_voting_'' @ g,
                        ''pct_majority_voting_'' @ g, ''est_voting_'' @ g, ''votes_for_'' @ g] \<and>
           (\<forall>k. node_at pt m ''alpha'' k = (if k < 2 then Some (ExponentialAt lam) else None)) \<and>
           (\<forall>k. node_at pt m ''beta'' k = (if k < 2 then Some (ExponentialAt lam) else None)) \<and>
           (\<forall>i. node_at pt m (''pct_minority_voting_'' @ g) i =
                  (if i < length vp then Some (BetaAt (Fin (al ! 0)) (Fin (bl ! 0))) else None)) \<and>
           (\<forall>i. node_at pt m (''pct_majority_voting_'' @ g) i =
                  (if i < length vp then Some (BetaAt (Fin (al ! 1)) (Fin (bl ! 1))) else None)) \<and>
           (\<forall>i. node_at pt m (''votes_for_'' @ g) i =
                  (if i < length vp
                   then Some (BinomialAt (vp ! i)
                          (fadd (fmul (pm ! i) (Fin (a ! i)))
                                (fmul (fsub (Fin 1) (pm ! i)) (Fin (b ! i))))
                          (nv ! i))
                   else None))"
proof -
  let ?E = "Add (Mul (Constant pm) (Var (''pct_minority_voting_'' @ g)))
                (Mul (Constant (map (fsub (Fin 1)) pm)) (Var (''pct_majority_voting_'' @ g)))"
  let ?v = "\<lambda>i. fadd (fmul (pm ! i) (Fin (a ! i))) (fmul (fsub (Fin 1) (pm ! i)) (Fin (b ! i)))"
  let ?M = "[(''alpha'', Exponential lam 2),
          (''beta'', Exponential lam 2),
          (''pct_minority_voting_'' @ g,
             Beta (Subtensor (Var ''alpha'') 0) (Subtensor (Var ''beta'') 0) (length vp)),
          (''pct_majority_voting_'' @ g,
             Beta (Subtensor (Var ''alpha'') 1) (Subtensor (Var ''beta'') 1) (length vp)),
          (''est_voting_'' @ g, Deterministic ?E),
          (''votes_for_'' @ g, Binomial vp ?E (length vp) nv)]"
  have m: "ecological_inference_model nv vp pm lam g = Inr ?M"
    by (rule builder_ok [OF len])
  have names: "map fst ?M = [''alpha'', ''beta'', ''pct_minority_voting_'' @ g,
                        ''pct_majority_voting_'' @ g, ''est_voting_'' @ g, ''votes_for_'' @ g]"
    by (simp only: list.map fst_conv)
  have ev: "eval_tensor pt ?E = Some (map ?v [0..<length pm])"
    using a b len by (intro eval_est) simp_all
  have n_alpha: "node_at pt ?M ''alpha'' k = (if k < 2 then Some (ExponentialAt lam) else None)"
    for k
    unfolding node_at_def by (simp only: map_of_alpha option.case elem_of_Exponential)
  have n_beta: "node_at pt ?M ''beta'' k = (if k < 2 then Some (ExponentialAt lam) else None)"
    for k
    unfolding node_at_def by (simp only: map_of_beta option.case elem_of_Exponential)
  have n_min: "node_at pt ?M (''pct_minority_voting_'' @ g) i =
                 (if i < length vp then Some (BetaAt (Fin (al ! 0)) (Fin (bl ! 0))) else None)"
    for i
  proof -
    have "0 < length al" "0 < length bl" using al bl by simp_all
    from elem_of_Beta_scalar [OF al(1) this(1) bl(1) this(2)] show ?thesis
      unfolding node_at_def by (simp only: map_of_min option.case)
  qed
  have n_maj: "node_at pt ?M (''pct_majority_voting_'' @ g) i =
                 (if i < length vp then Some (BetaAt (Fin (al ! 1)) (Fin (bl ! 1))) else None)"
    for i
  proof -
    have "1 < length al" "1 < length bl" using al bl by simp_all
    from elem_of_Beta_scalar [OF al(1) this(1) bl(1) this(2)] show ?thesis
      unfolding node_at_def by (simp only: map_of_maj option.case)
  qed
  have n_votes: "node_at pt ?M (''votes_for_'' @ g) i =
                  (if i < length vp then Some (BinomialAt (vp ! i) (?v i) (nv ! i)) else None)"
    for i
  proof -
    have "elem_of pt (Binomial vp ?E (length vp) nv) i =
            (if i < length vp
             then Some (BinomialAt (vp ! i) (map ?v [0..<length pm] ! i) (nv ! i)) else None)"
      using len by (intro elem_of_Binomial_vec [OF ev]) simp_all
    also have "\<dots> = (if i < length vp then Some (BinomialAt (vp ! i) (?v i) (nv ! i)) else None)"
      using len by simp
    finally show ?thesis
      unfolding node_at_def by (simp only: map_of_votes option.case)
  qed
  show ?thesis
    by (intro exI [of _ ?M] conjI allI m names n_alpha n_beta n_min n_maj n_votes)
qed


theorem model_structure_witness:
  "\<exists>m. ecological_inference_model [50 :: real] [100 :: real] [Fin 0.3] 0.5 ''dem'' = Inr m \<and>
       map fst m = [''alpha'', ''beta'', ''pct_minority_voting_dem'',
                    ''pct_majority_voting_dem'', ''est_voting_dem'', ''votes_for_dem''] \<and>
       node_at [''alpha'' \<mapsto> [2, 3], ''beta'' \<mapsto> [4, 5],
                ''pct_minority_voting_dem'' \<mapsto> [0.9], ''pct_majority_voting_dem'' \<mapsto> [0.2]]
         m ''pct_majority_voting_dem'' 0 = Some (BetaAt (Fin 3) (Fin 5)) \<and>
       node_at [''alpha'' \<mapsto> [2, 3], ''beta'' \<mapsto> [4, 5],
                ''pct_minority_voting_dem'' \<mapsto> [0.9], ''pct_majority_voting_dem'' \<mapsto> [0.2]]
         m ''votes_for_dem'' 0 = Some (BinomialAt (100 :: real) (Fin 0.41) 50)"
proof -
  let ?pt = "[''alpha'' \<mapsto> [2, 3], ''beta'' \<mapsto> [4, 5],
              ''pct_minority_voting_dem'' \<mapsto> [0.9], ''pct_majority_voting_dem'' \<mapsto> [0.2 :: real]]"
  obtain m where m: "ecological_inference_model [50 :: real] [100 :: real] [Fin 0.3] 0.5 ''dem'' = Inr m"
    and names: "map fst m = [''alpha'', ''beta'', ''pct_minority_voting_'' @ ''dem'',
                        ''pct_majority_voting_'' @ ''dem'', ''est_voting_'' @ ''dem'',
                        ''votes_for_'' @ ''dem'']"
    and maj: "\<forall>i. node_at ?pt m (''pct_majority_voting_'' @ ''dem'') i =
                  (if i < length [100 :: real]
                   then Some (BetaAt (Fin ([2, 3] ! 1)) (Fin ([4, 5] ! 1))) else None)"
    and votes: "\<forall>i. node_at ?pt m (''votes_for_'' @ ''dem'') i =
                  (if i < length [100 :: real]
                   then Some (BinomialAt ([100 :: real] ! i)
                          (fadd (fmul ([Fin 0.3] ! i) (Fin ([0.9] ! i)))
                                (fmul (fsub (Fin 1) ([Fin 0.3] ! i)) (Fin ([0.2] ! i))))
                          ([50 :: real] ! i))
                   else None)"
    using model_structure [where nv = "[50 :: real]" and vp = "[100 :: real]" and pm = "[Fin 0.3]"
            and pt = ?pt and al = "[2, 3]" and bl = "[4, 5]" and g = "''dem''"
            and a = "[0.9]" and b = "[0.2]" and lam = "0.5"]
    by auto
  from maj have "node_at ?pt m ''pct_majority_voting_dem'' 0 = Some (BetaAt (Fin 3) (Fin 5))"
    by simp
  moreover from votes have "node_at ?pt m ''votes_for_dem'' 0 = Some (BinomialAt (100 :: real) (Fin 0.41) 50)"
    by (simp add: fsub_def)
  ultimately show ?thesis using m names by auto
qed

section \<open>Names of the declared quantities\<close>

text \<open>
  C5, as stated, fails: the hyperpriors are named \<open>alpha\<close> and \<open>beta\<close> without the
  group name, so the models built for \<open>dem\<close> and for \<open>rep\<close> share the identifier
  \<open>alpha\<close>.
\<close>

theorem group_naming_counterexample:
  "''dem'' \<noteq> ''rep'' \<and>
   ''alpha'' \<in> set (var_names (ecological_inference_model [50 :: real] [100 :: real] [Fin 0.3] 0.5 ''dem'')) \<inter>
               set (var_names (ecological_inference_model [50 :: real] [100 :: real] [Fin 0.3] 0.5 ''rep''))"
  by (simp add: ecological_inference_model_def var_names_def Let_def)

lemma var_names_ok:
  assumes "length nv = length vp" and "length pm = length vp"
  shows "var_names (ecological_inference_model nv vp pm lam g) =
           [''alpha'', ''beta'', ''pct_minority_voting_'' @ g, ''pct_majority_voting_'' @ g,
            ''est_voting_'' @ g, ''votes_for_'' @ g]"
  unfolding builder_ok [OF assms] var_names_def by (simp only: sum.case list.map fst_conv)

text \<open>
  C5, amended: the two latent rate vectors, the deterministic estimate and the observed
  node carry the group name as a suffix; the hyperpriors are named \<open>alpha\<close> and
  \<open>beta\<close> whatever the group name. Two models built with distinct group names share
  exactly the identifiers \<open>alpha\<close> and \<open>beta\<close>.
\<close>

theorem group_naming:
  assumes "length nv = length vp" and "length pm = length vp"
      and "length nv' = length vp'" and "length pm' = length vp'"
      and "g \<noteq> g'"
  shows "var_names (ecological_inference_model nv vp pm lam g) =
           [''alpha'', ''beta'', ''pct_minority_voting_'' @ g, ''pct_majority_voting_'' @ g,
            ''est_voting_'' @ g, ''votes_for_'' @ g] \<and>
         var_names (ecological_inference_model nv' vp' pm' lam' g') =
           [''alpha'', ''beta'', ''pct_minority_voting_'' @ g', ''pct_majority_voting_'' @ g',
            ''est_voting_'' @ g', ''votes_for_'' @ g'] \<and>
         set (var_names (ecological_inference_model nv vp pm lam g)) \<inter>
         set (var_names (ecological_inference_model nv' vp' pm' lam' g')) = {''alpha'', ''beta''}"
proof -
  have "set [''alpha'', ''beta'', ''pct_minority_voting_'' @ g, ''pct_majority_voting_'' @ g,
            ''est_voting_'' @ g, ''votes_for_'' @ g] \<inter>
        set [''alpha'', ''beta'', ''pct_minority_voting_'' @ g', ''pct_majority_voting_'' @ g',
            ''est_voting_'' @ g', ''votes_for_'' @ g'] = {''alpha'', ''beta''}"
    using assms(5) by auto
  then show ?thesis
    unfolding var_names_ok [OF assms(1,2)] var_names_ok [OF assms(3,4)] by (simp only: simp_thms)
qed

theorem group_naming_witness:
  "set (var_names (ecological_inference_model [50 :: real] [100 :: real] [Fin 0.3] 0.5 ''dem'')) \<inter>
   set (var_names (ecological_inference_model [40, 10 :: real] [100, 20 :: real] [Fin 0.3, Fin 0.6] 1 ''rep''))
     = {''alpha'', ''beta''}"
  using group_naming [where nv = "[50 :: real]" and vp = "[100 :: real]" and pm = "[Fin 0.3]" and lam = "0.5"
          and g = "''dem''" and nv' = "[40, 10 :: real]" and vp' = "[100, 20 :: real]"
          and pm' = "[Fin 0.3, Fin 0.6]" and lam' = 1 and g' = "''rep''"]
  by simp

section \<open>The sampler wrapper\<close>

lemma derived_lengths:
  "length (num_voting_for_dems_of df) = length (voting_population_of df)"
  "length (pct_minority_of df) = length (voting_population_of df)"
  by (simp_all add: num_voting_for_dems_of_def voting_population_of_def pct_minority_of_def)

lemma table_model:
  "\<exists>model. ecological_inference_model (num_voting_for_dems_of df) (voting_population_of df)
             (pct_minority_of df) lam g = Inr model"
  using builder_ok [OF derived_lengths] by blast

lemma run_unfold:
  assumes "ecological_inference_model (num_voting_for_dems_of df) (voting_population_of df)
             (pct_minority_of df) 0.5 ''dem'' = Inr model"
  shows "run_ecological_inference sample df kw s =
           (if ''nuts_kwargs'' \<in> dom kw then (Inl (TypeError duplicate_keyword_message), s)
            else if ''draws'' \<in> dom kw then (Inl (TypeError duplicate_argument_message), s)
            else sample model [PyInt 5000]
                   (kw(''nuts_kwargs'' \<mapsto> PyDict [(''target_accept'', PyFloat 0.98)])) s)"
  unfolding run_ecological_inference_def Let_def assms by (simp only: sum.case)

lemma pct_minority_nth:
  "i < length df \<Longrightarrow>
     pct_minority_of df ! i =
       cell_truediv (cell_sub (Total (df ! i)) (White_Alone (df ! i))) (Total (df ! i))"
  by (simp add: pct_minority_of_def)

lemma voting_population_nth:
  "i < length df \<Longrightarrow> voting_population_of df ! i = cell_add (DEM (df ! i)) (REP (df ! i))"
  by (simp add: voting_population_of_def)

lemma num_voting_for_dems_nth:
  "i < length df \<Longrightarrow> num_voting_for_dems_of df ! i = DEM (df ! i)"
  by (simp add: num_voting_for_dems_of_def)

lemma saturate_in_range: "\<bar>r\<bar> \<le> max_float \<Longrightarrow> saturate (Fin r) = Fin r"
  by (auto simp: abs_le_iff)

lemma wrap64_id: "- (2 ^ 63) \<le> n \<Longrightarrow> n < 2 ^ 63 \<Longrightarrow> wrap64 n = n"
  by (simp add: wrap64_def)

lemma int_range_max_float: "(2 :: real) ^ 63 \<le> max_float"
  by (simp add: max_float_def)

lemma float_fraction:
  assumes "\<bar>T - W\<bar> \<le> max_float" and "T \<noteq> 0" and "\<bar>(T - W) / T\<bar> \<le> max_float"
  shows "cell_truediv (cell_sub (FloatCell (Fin T)) (FloatCell (Fin W))) (FloatCell (Fin T))
           = Fin ((T - W) / T)"
  using assms
  by (simp add: cell_truediv_def fsub_def true_divide_def saturate_in_range del: saturate.simps)

lemma int_fraction:
  assumes "- (2 ^ 63) \<le> t - w" and "t - w < 2 ^ 63" and "t \<noteq> 0"
  shows "cell_truediv (cell_sub (IntCell t) (IntCell w)) (IntCell t)
           = Fin (real_of_int (t - w) / real_of_int t)"
proof -
  have a: "\<bar>real_of_int (t - w)\<bar> \<le> 2 ^ 63"
    using assms(1,2) by (simp add: abs_le_iff)
  have b: "1 \<le> \<bar>real_of_int t\<bar>"
    using assms(3) by (simp add: abs_if)
  have "\<bar>real_of_int (t - w) / real_of_int t\<bar> = \<bar>real_of_int (t - w)\<bar> / \<bar>real_of_int t\<bar>"
    by (rule abs_divide)
  also have "\<dots> \<le> \<bar>real_of_int (t - w)\<bar> / 1"
    using b by (intro divide_left_mono) simp_all
  also have "\<dots> \<le> 2 ^ 63"
    using a by simp
  finally have "\<bar>real_of_int (t - w) / real_of_int t\<bar> \<le> 2 ^ 63" .
  then have "\<bar>real_of_int (t - w) / real_of_int t\<bar> \<le> max_float"
    using int_range_max_float by linarith
  then show ?thesis
    using assms
    by (simp add: cell_truediv_def true_divide_def wrap64_id saturate_in_range del: saturate.simps)
qed

lemma zero_total_not_finite:
  assumes "as_float c = Fin 0"
  shows "\<not> is_finite (cell_truediv x c)"
  using assms
  by (cases "as_float x") (auto simp: cell_truediv_def true_divide_def is_finite_def)

lemma float_sum:
  assumes "\<bar>D + R\<bar> \<le> max_float"
  shows "cell_add (FloatCell (Fin D)) (FloatCell (Fin R)) = FloatCell (Fin (D + R))"
  using assms by (simp add: saturate_in_range del: saturate.simps)

lemma int_sum:
  assumes "- (2 ^ 63) \<le> d + r" and "d + r < 2 ^ 63"
  shows "cell_add (IntCell d) (IntCell r) = IntCell (d + r)"
  using assms by (simp add: wrap64_id)


lemma max_float_overflow: "max_float < 10 ^ 308 + 10 ^ 308"
  unfolding max_float_def by simp

text \<open>
  C4: for every table, the wrapper derives per row the votes for the group \<open>DEM\<close>, the
  voting population \<open>DEM + REP\<close> and the minority fraction
  \<open>(Total - White Alone) / Total\<close>, in the arithmetic of the columns, and the model it
  samples from is the one the builder returns for these three arrays with the defaults
  \<open>lam = 0.5\<close> and \<open>group_name = dem\<close>. Where the entries are finite float64 numbers
  and nothing overflows, or int64 numbers and nothing wraps, the fraction is the number
  \<open>(Total - White Alone) / Total\<close> and the voting population the number \<open>DEM + REP\<close>.
\<close>

theorem wrapper_builds_default_model:
  "\<exists>model.
     ecological_inference_model (num_voting_for_dems_of df) (voting_population_of df)
       (pct_minority_of df) 0.5 ''dem'' = Inr model \<and>
     run_ecological_inference sample df kw s =
       (if ''nuts_kwargs'' \<in> dom kw then (Inl (TypeError duplicate_keyword_message), s)
        else if ''draws'' \<in> dom kw then (Inl (TypeError duplicate_argument_message), s)
        else sample model [PyInt 5000]
               (kw(''nuts_kwargs'' \<mapsto> PyDict [(''target_accept'', PyFloat 0.98)])) s) \<and>
     length (num_voting_for_dems_of df) = length df \<and>
     length (voting_population_of df) = length df \<and>
     length (pct_minority_of df) = length df \<and>
     (\<forall>i<length df.
        num_voting_for_dems_of df ! i = DEM (df ! i) \<and>
        voting_population_of df ! i = cell_add (DEM (df ! i)) (REP (df ! i)) \<and>
        pct_minority_of df ! i =
          cell_truediv (cell_sub (Total (df ! i)) (White_Alone (df ! i))) (Total (df ! i))) \<and>
     (\<forall>i<length df. \<forall>T W.
        Total (df ! i) = FloatCell (Fin T) \<and> White_Alone (df ! i) = FloatCell (Fin W) \<and>
        T \<noteq> 0 \<and> \<bar>T - W\<bar> \<le> max_float \<and> \<bar>(T - W) / T\<bar> \<le> max_float
        \<longrightarrow> pct_minority_of df ! i = Fin ((T - W) / T)) \<and>
     (\<forall>i<length df. \<forall>t w.
        Total (df ! i) = IntCell t \<and> White_Alone (df ! i) = IntCell w \<and>
        t \<noteq> 0 \<and> - (2 ^ 63) \<le> t - w \<and> t - w < 2 ^ 63
        \<longrightarrow> pct_minority_of df ! i = Fin (real_of_int (t - w) / real_of_int t)) \<and>
     (\<forall>i<length df. \<forall>D R.
        DEM (df ! i) = FloatCell (Fin D) \<and> REP (df ! i) = FloatCell (Fin R) \<and>
        \<bar>D + R\<bar> \<le> max_float
        \<longrightarrow> voting_population_of df ! i = FloatCell (Fin (D + R))) \<and>
     (\<forall>i<length df. \<forall>d r.
        DEM (df ! i) = IntCell d \<and> REP (df ! i) = IntCell r \<and>
        - (2 ^ 63) \<le> d + r \<and> d + r < 2 ^ 63
        \<longrightarrow> voting_population_of df ! i = IntCell (d + r))"
proof -
  obtain model where m: "ecological_inference_model (num_voting_for_dems_of df)
      (voting_population_of df) (pct_minority_of df) 0.5 ''dem'' = Inr model"
    using table_model by blast
  have l1: "length (num_voting_for_dems_of df) = length df"
    and l2: "length (voting_population_of df) = length df"
    and l3: "length (pct_minority_of df) = length df"
    by (simp_all add: num_voting_for_dems_of_def voting_population_of_def pct_minority_of_def)
  have rows: "num_voting_for_dems_of df ! i = DEM (df ! i) \<and>
        voting_population_of df ! i = cell_add (DEM (df ! i)) (REP (df ! i)) \<and>
        pct_minority_of df ! i =
          cell_truediv (cell_sub (Total (df ! i)) (White_Alone (df ! i))) (Total (df ! i))"
    if "i < length df" for i
    using that
    by (simp only: num_voting_for_dems_nth voting_population_nth pct_minority_nth simp_thms)
  have ff: "pct_minority_of df ! i = Fin ((T - W) / T)"
    if i: "i < length df" and
       h: "Total (df ! i) = FloatCell (Fin T) \<and> White_Alone (df ! i) = FloatCell (Fin W) \<and>
        T \<noteq> 0 \<and> \<bar>T - W\<bar> \<le> max_float \<and> \<bar>(T - W) / T\<bar> \<le> max_float" for i T W
  proof -
    from h have e: "Total (df ! i) = FloatCell (Fin T)" "White_Alone (df ! i) = FloatCell (Fin W)"
      and c: "\<bar>T - W\<bar> \<le> max_float" "T \<noteq> 0" "\<bar>(T - W) / T\<bar> \<le> max_float"
      by simp_all
    show ?thesis unfolding pct_minority_nth [OF i] e by (rule float_fraction [OF c])
  qed
  have fi: "pct_minority_of df ! i = Fin (real_of_int (t - w) / real_of_int t)"
    if i: "i < length df" and
       h: "Total (df ! i) = IntCell t \<and> White_Alone (df ! i) = IntCell w \<and>
        t \<noteq> 0 \<and> - (2 ^ 63) \<le> t - w \<and> t - w < 2 ^ 63" for i t w
  proof -
    from h have e: "Total (df ! i) = IntCell t" "White_Alone (df ! i) = IntCell w"
      and c: "- (2 ^ 63) \<le> t - w" "t - w < 2 ^ 63" "t \<noteq> 0"
      by simp_all
    show ?thesis unfolding pct_minority_nth [OF i] e by (rule int_fraction [OF c])
  qed
  have sf: "voting_population_of df ! i = FloatCell (Fin (D + R))"
    if i: "i < length df" and
       h: "DEM (df ! i) = FloatCell (Fin D) \<and> REP (df ! i) = FloatCell (Fin R) \<and>
        \<bar>D + R\<bar> \<le> max_float" for i D R
  proof -
    from h have e: "DEM (df ! i) = FloatCell (Fin D)" "REP (df ! i) = FloatCell (Fin R)"
      and c: "\<bar>D + R\<bar> \<le> max_float"
      by simp_all
    show ?thesis unfolding voting_population_nth [OF i] e by (rule float_sum [OF c])
  qed
  have si: "voting_population_of df ! i = IntCell (d + r)"
    if i: "i < length df" and
       h: "DEM (df ! i) = IntCell d \<and> REP (df ! i) = IntCell r \<and>
        - (2 ^ 63) \<le> d + r \<and> d + r < 2 ^ 63" for i d r
  proof -
    from h have e: "DEM (df ! i) = IntCell d" "REP (df ! i) = IntCell r"
      and c: "- (2 ^ 63) \<le> d + r" "d + r < 2 ^ 63"
      by simp_all
    show ?thesis unfolding voting_population_nth [OF i] e by (rule int_sum [OF c])
  qed
  from rows have rows': "\<forall>i<length df.
        num_voting_for_dems_of df ! i = DEM (df ! i) \<and>
        voting_population_of df ! i = cell_add (DEM (df ! i)) (REP (df ! i)) \<and>
        pct_minority_of df ! i =
          cell_truediv (cell_sub (Total (df ! i)) (White_Alone (df ! i))) (Total (df ! i))"
    by blast
  from ff have ff': "\<forall>i<length df. \<forall>T W.
        Total (df ! i) = FloatCell (Fin T) \<and> White_Alone (df ! i) = FloatCell (Fin W) \<and>
        T \<noteq> 0 \<and> \<bar>T - W\<bar> \<le> max_float \<and> \<bar>(T - W) / T\<bar> \<le> max_float
        \<longrightarrow> pct_minority_of df ! i = Fin ((T - W) / T)"
    by blast
  from fi have fi': "\<forall>i<length df. \<forall>t w.
        Total (df ! i) = IntCell t \<and> White_Alone (df ! i) = IntCell w \<and>
        t \<noteq> 0 \<and> - (2 ^ 63) \<le> t - w \<and> t - w < 2 ^ 63
        \<longrightarrow> pct_minority_of df ! i = Fin (real_of_int (t - w) / real_of_int t)"
    by blast
  from sf have sf': "\<forall>i<length df. \<forall>D R.
        DEM (df ! i) = FloatCell (Fin D) \<and> REP (df ! i) = FloatCell (Fin R) \<and>
        \<bar>D + R\<bar> \<le> max_float
        \<longrightarrow> voting_population_of df ! i = FloatCell (Fin (D + R))"
    by blast
  from si have si': "\<forall>i<length df. \<forall>d r.
        DEM (df ! i) = IntCell d \<and> REP (df ! i) = IntCell r \<and>
        - (2 ^ 63) \<le> d + r \<and> d + r < 2 ^ 63
        \<longrightarrow> voting_population_of df ! i = IntCell (d + r)"
    by blast
  show ?thesis
    by (intro exI [of _ model] conjI m run_unfold [OF m] l1 l2 l3 rows' ff' fi' sf' si')
qed


theorem wrapper_builds_default_model_witness:
  "pct_minority_of [\<lparr>Total = FloatCell (Fin 100), White_Alone = FloatCell (Fin 70),
                     DEM = FloatCell (Fin 30), REP = FloatCell (Fin 20)\<rparr>] ! 0 = Fin 0.3 \<and>
   voting_population_of [\<lparr>Total = FloatCell (Fin 100), White_Alone = FloatCell (Fin 70),
                     DEM = FloatCell (Fin 30), REP = FloatCell (Fin 20)\<rparr>] ! 0
     = FloatCell (Fin 50) \<and>
   num_voting_for_dems_of [\<lparr>Total = FloatCell (Fin 100), White_Alone = FloatCell (Fin 70),
                     DEM = FloatCell (Fin 30), REP = FloatCell (Fin 20)\<rparr>] ! 0
     = FloatCell (Fin 30) \<and>
   (\<exists>model.
      ecological_inference_model
        (num_voting_for_dems_of [\<lparr>Total = FloatCell (Fin 100), White_Alone = FloatCell (Fin 70),
                     DEM = FloatCell (Fin 30), REP = FloatCell (Fin 20)\<rparr>])
        (voting_population_of [\<lparr>Total = FloatCell (Fin 100), White_Alone = FloatCell (Fin 70),
                     DEM = FloatCell (Fin 30), REP = FloatCell (Fin 20)\<rparr>])
        (pct_minority_of [\<lparr>Total = FloatCell (Fin 100), White_Alone = FloatCell (Fin 70),
                     DEM = FloatCell (Fin 30), REP = FloatCell (Fin 20)\<rparr>]) 0.5 ''dem''
        = Inr model \<and>
      run_ecological_inference names_sampler
        [\<lparr>Total = FloatCell (Fin 100), White_Alone = FloatCell (Fin 70),
          DEM = FloatCell (Fin 30), REP = FloatCell (Fin 20)\<rparr>] [''chains'' \<mapsto> PyInt 2] 0
        = (Inr (map fst model), 1)) \<and>
   pct_minority_of [\<lparr>Total = IntCell 100, White_Alone = IntCell 70,
                     DEM = IntCell (2 ^ 62), REP = IntCell (2 ^ 62)\<rparr>] ! 0 = Fin 0.3 \<and>
   voting_population_of [\<lparr>Total = IntCell 100, White_Alone = IntCell 70,
                     DEM = IntCell (2 ^ 62), REP = IntCell (2 ^ 62)\<rparr>] ! 0
     = IntCell (- (2 ^ 63))"
proof -
  let ?df = "[\<lparr>Total = FloatCell (Fin 100), White_Alone = FloatCell (Fin 70),
               DEM = FloatCell (Fin 30), REP = FloatCell (Fin 20)\<rparr>]"
  let ?kw = "[''chains'' \<mapsto> PyInt 2]"
  from wrapper_builds_default_model [of ?df names_sampler ?kw 0]
  obtain model where
    m: "ecological_inference_model (num_voting_for_dems_of ?df) (voting_population_of ?df)
          (pct_minority_of ?df) 0.5 ''dem'' = Inr model" and
    r: "run_ecological_inference names_sampler ?df ?kw 0 =
       (if ''nuts_kwargs'' \<in> dom ?kw then (Inl (TypeError duplicate_keyword_message), 0)
        else if ''draws'' \<in> dom ?kw then (Inl (TypeError duplicate_argument_message), 0)
        else names_sampler model [PyInt 5000]
               (?kw(''nuts_kwargs'' \<mapsto> PyDict [(''target_accept'', PyFloat 0.98)])) 0)" and
    rows: "\<forall>i<length ?df.
        num_voting_for_dems_of ?df ! i = DEM (?df ! i) \<and>
        voting_population_of ?df ! i = cell_add (DEM (?df ! i)) (REP (?df ! i)) \<and>
        pct_minority_of ?df ! i =
          cell_truediv (cell_sub (Total (?df ! i)) (White_Alone (?df ! i))) (Total (?df ! i))" and
    ff: "\<forall>i<length ?df. \<forall>T W.
        Total (?df ! i) = FloatCell (Fin T) \<and> White_Alone (?df ! i) = FloatCell (Fin W) \<and>
        T \<noteq> 0 \<and> \<bar>T - W\<bar> \<le> max_float \<and> \<bar>(T - W) / T\<bar> \<le> max_float
        \<longrightarrow> pct_minority_of ?df ! i = Fin ((T - W) / T)" and
    sf: "\<forall>i<length ?df. \<forall>D R.
        DEM (?df ! i) = FloatCell (Fin D) \<and> REP (?df ! i) = FloatCell (Fin R) \<and>
        \<bar>D + R\<bar> \<le> max_float
        \<longrightarrow> voting_population_of ?df ! i = FloatCell (Fin (D + R))"
    by (elim exE conjE) (rule that)
  have i0: "0 < length ?df" by simp
  have "pct_minority_of ?df ! 0 = Fin ((100 - 70) / 100)"
    by (rule ff [rule_format, OF i0]) (simp add: max_float_def)
  then have a: "pct_minority_of ?df ! 0 = Fin 0.3" by simp
  have "voting_population_of ?df ! 0 = FloatCell (Fin (30 + 20))"
    by (rule sf [rule_format, OF i0]) (simp add: max_float_def)
  then have b: "voting_population_of ?df ! 0 = FloatCell (Fin 50)" by simp
  from rows [rule_format, OF i0]
  have c: "num_voting_for_dems_of ?df ! 0 = FloatCell (Fin 30)" by simp
  have k: "''nuts_kwargs'' \<notin> dom ?kw" "''draws'' \<notin> dom ?kw" by simp_all
  have ns: "names_sampler model [PyInt 5000]
              (?kw(''nuts_kwargs'' \<mapsto> PyDict [(''target_accept'', PyFloat 0.98)])) 0
            = (Inr (map fst model), 1)"
    unfolding names_sampler_def by (simp only: One_nat_def)
  from r k have "run_ecological_inference names_sampler ?df ?kw 0 = (Inr (map fst model), 1)"
    by (simp only: if_False ns)
  with m have d: "\<exists>model.
      ecological_inference_model (num_voting_for_dems_of ?df) (voting_population_of ?df)
        (pct_minority_of ?df) 0.5 ''dem'' = Inr model \<and>
      run_ecological_inference names_sampler ?df ?kw 0 = (Inr (map fst model), 1)"
    by (intro exI [of _ model] conjI)
  let ?di = "[\<lparr>Total = IntCell 100, White_Alone = IntCell 70,
                     DEM = IntCell (2 ^ 62), REP = IntCell (2 ^ 62)\<rparr>]"
  from wrapper_builds_default_model [of ?di names_sampler ?kw 0]
  obtain model' where
    rows': "\<forall>i<length ?di.
        num_voting_for_dems_of ?di ! i = DEM (?di ! i) \<and>
        voting_population_of ?di ! i = cell_add (DEM (?di ! i)) (REP (?di ! i)) \<and>
        pct_minority_of ?di ! i =
          cell_truediv (cell_sub (Total (?di ! i)) (White_Alone (?di ! i))) (Total (?di ! i))" and
    fi: "\<forall>i<length ?di. \<forall>t w.
        Total (?di ! i) = IntCell t \<and> White_Alone (?di ! i) = IntCell w \<and>
        t \<noteq> 0 \<and> - (2 ^ 63) \<le> t - w \<and> t - w < 2 ^ 63
        \<longrightarrow> pct_minority_of ?di ! i = Fin (real_of_int (t - w) / real_of_int t)"
    by (elim exE conjE) (rule that)
  have j0: "0 < length ?di" by simp
  have "pct_minority_of ?di ! 0 = Fin (real_of_int (100 - 70) / real_of_int 100)"
    by (rule fi [rule_format, OF j0]) simp
  then have e: "pct_minority_of ?di ! 0 = Fin 0.3" by simp
  from rows' [rule_format, OF j0]
  have "voting_population_of ?di ! 0 = cell_add (IntCell (2 ^ 62)) (IntCell (2 ^ 62))" by simp
  then have f: "voting_population_of ?di ! 0 = IntCell (- (2 ^ 63))"
    by (simp add: wrap64_def)
  from a b c d e f show ?thesis by (intro conjI)
qed

lemma run_collision_free:
  assumes m: "ecological_inference_model (num_voting_for_dems_of df) (voting_population_of df)
             (pct_minority_of df) 0.5 ''dem'' = Inr model"
      and "''nuts_kwargs'' \<notin> dom kw" and "''draws'' \<notin> dom kw"
  shows "run_ecological_inference sample df kw s =
           sample model [PyInt 5000]
             (kw(''nuts_kwargs'' \<mapsto> PyDict [(''target_accept'', PyFloat 0.98)])) s"
  unfolding run_unfold [OF m] using assms(2,3) by (simp only: if_False)

lemma run_collision:
  assumes m: "ecological_inference_model (num_voting_for_dems_of df) (voting_population_of df)
             (pct_minority_of df) 0.5 ''dem'' = Inr model"
      and "''nuts_kwargs'' \<in> dom kw \<or> ''draws'' \<in> dom kw"
  shows "run_ecological_inference sample df kw s =
           (Inl (TypeError (if ''nuts_kwargs'' \<in> dom kw then duplicate_keyword_message
                            else duplicate_argument_message)), s)"
proof (cases "''nuts_kwargs'' \<in> dom kw")
  case True
  then show ?thesis unfolding run_unfold [OF m] by (simp only: if_True)
next
  case False
  with assms(2) have "''draws'' \<in> dom kw" by (simp only: simp_thms)
  with False show ?thesis unfolding run_unfold [OF m] by (simp only: if_True if_False)
qed

lemma counting_calls:
  "snd (snd (counting sample model args kws (s, n))) = Suc n"
  by (simp add: counting_def split: prod.splits)

text \<open>
  C6, as stated, fails: the call of the sampler passes \<^verbatim>\<open>nuts_kwargs\<close> by name and
  5000 for the parameter \<^verbatim>\<open>draws\<close>, so a caller who supplies the keyword
  \<^verbatim>\<open>nuts_kwargs\<close> or the keyword \<^verbatim>\<open>draws\<close> gets a TypeError; the option is not
  forwarded, the sampler is not called (its call count stays 0) and no trace comes back.
\<close>

theorem forwarding_counterexample:
  "run_ecological_inference names_sampler
     [\<lparr>Total = FloatCell (Fin 100), White_Alone = FloatCell (Fin 70),
       DEM = FloatCell (Fin 30), REP = FloatCell (Fin 20)\<rparr>]
     [''nuts_kwargs'' \<mapsto> PyDict [(''target_accept'', PyFloat 0.9)]] 0
   = (Inl (TypeError duplicate_keyword_message), 0) \<and>
   run_ecological_inference names_sampler
     [\<lparr>Total = FloatCell (Fin 100), White_Alone = FloatCell (Fin 70),
       DEM = FloatCell (Fin 30), REP = FloatCell (Fin 20)\<rparr>]
     [''draws'' \<mapsto> PyInt 1000] 0
   = (Inl (TypeError duplicate_argument_message), 0)"
proof -
  let ?df = "[\<lparr>Total = FloatCell (Fin 100), White_Alone = FloatCell (Fin 70),
               DEM = FloatCell (Fin 30), REP = FloatCell (Fin 20)\<rparr>]"
  obtain model where m: "ecological_inference_model (num_voting_for_dems_of ?df)
      (voting_population_of ?df) (pct_minority_of ?df) 0.5 ''dem'' = Inr model"
    using table_model by blast
  have a: "run_ecological_inference names_sampler ?df
     [''nuts_kwargs'' \<mapsto> PyDict [(''target_accept'', PyFloat 0.9)]] 0
   = (Inl (TypeError duplicate_keyword_message), 0)"
    unfolding run_unfold [OF m] by simp
  have b: "run_ecological_inference names_sampler ?df [''draws'' \<mapsto> PyInt 1000] 0
   = (Inl (TypeError duplicate_argument_message), 0)"
    unfolding run_unfold [OF m] by simp
  from a b show ?thesis by (rule conjI)
qed

text \<open>
  C6, amended: when the caller's keyword options name neither \<^verbatim>\<open>nuts_kwargs\<close> nor
  \<^verbatim>\<open>draws\<close>, the wrapper calls the sampler with the positional argument 5000, with
  \<^verbatim>\<open>nuts_kwargs = {target_accept: 0.98}\<close> and with every option of the caller
  unchanged and nothing else, and returns what the sampler returns.
\<close>

theorem sampling_call:
  assumes "''nuts_kwargs'' \<notin> dom kw" and "''draws'' \<notin> dom kw"
  shows "\<exists>model kws.
           ecological_inference_model (num_voting_for_dems_of df) (voting_population_of df)
             (pct_minority_of df) 0.5 ''dem'' = Inr model \<and>
           run_ecological_inference sample df kw s = sample model [PyInt 5000] kws s \<and>
           kws ''nuts_kwargs'' = Some (PyDict [(''target_accept'', PyFloat 0.98)]) \<and>
           dom kws = insert ''nuts_kwargs'' (dom kw) \<and>
           (\<forall>k \<in> dom kw. kws k = kw k)"
proof -
  obtain model where m: "ecological_inference_model (num_voting_for_dems_of df)
      (voting_population_of df) (pct_minority_of df) 0.5 ''dem'' = Inr model"
    using table_model by blast
  let ?kws = "kw(''nuts_kwargs'' \<mapsto> PyDict [(''target_accept'', PyFloat 0.98)])"
  have r: "run_ecological_inference sample df kw s = sample model [PyInt 5000] ?kws s"
    by (rule run_collision_free [OF m assms])
  have k1: "?kws ''nuts_kwargs'' = Some (PyDict [(''target_accept'', PyFloat 0.98)])"
    by (simp only: fun_upd_same)
  have k2: "dom ?kws = insert ''nuts_kwargs'' (dom kw)"
    by (simp only: dom_fun_upd option.distinct if_False)
  have k3: "\<forall>k \<in> dom kw. ?kws k = kw k"
    using assms(1) by (auto simp only: fun_upd_apply split: if_splits)
  show ?thesis by (intro exI [of _ model] exI [of _ ?kws] conjI m r k1 k2 k3)
qed

theorem sampling_call_witness:
  "\<exists>model. ecological_inference_model
        (num_voting_for_dems_of [\<lparr>Total = FloatCell (Fin 100), White_Alone = FloatCell (Fin 70),
                                  DEM = FloatCell (Fin 30), REP = FloatCell (Fin 20)\<rparr>])
        (voting_population_of [\<lparr>Total = FloatCell (Fin 100), White_Alone = FloatCell (Fin 70),
                                  DEM = FloatCell (Fin 30), REP = FloatCell (Fin 20)\<rparr>])
        (pct_minority_of [\<lparr>Total = FloatCell (Fin 100), White_Alone = FloatCell (Fin 70),
                                  DEM = FloatCell (Fin 30), REP = FloatCell (Fin 20)\<rparr>])
        0.5 ''dem'' = Inr model \<and>
      run_ecological_inference names_sampler
        [\<lparr>Total = FloatCell (Fin 100), White_Alone = FloatCell (Fin 70),
          DEM = FloatCell (Fin 30), REP = FloatCell (Fin 20)\<rparr>] [''chains'' \<mapsto> PyInt 2] 0
      = (Inr (map fst model), 1)"
proof -
  let ?df = "[\<lparr>Total = FloatCell (Fin 100), White_Alone = FloatCell (Fin 70),
               DEM = FloatCell (Fin 30), REP = FloatCell (Fin 20)\<rparr>]"
  let ?kw = "[''chains'' \<mapsto> PyInt 2]"
  have h: "''nuts_kwargs'' \<notin> dom ?kw" "''draws'' \<notin> dom ?kw" by simp_all
  from sampling_call [OF h, of ?df names_sampler 0]
  obtain model kws where
    m: "ecological_inference_model (num_voting_for_dems_of ?df) (voting_population_of ?df)
          (pct_minority_of ?df) 0.5 ''dem'' = Inr model" and
    r: "run_ecological_inference names_sampler ?df ?kw 0
          = names_sampler model [PyInt 5000] kws 0"
    by (elim exE conjE) (rule that)
  have ns: "names_sampler model [PyInt 5000] kws 0 = (Inr (map fst model), 1)"
    unfolding names_sampler_def by (simp only: One_nat_def)
  show ?thesis
    using m r [unfolded ns] by (intro exI [of _ model] conjI)
qed

text \<open>
  C9, as stated, fails: a call whose options name \<^verbatim>\<open>nuts_kwargs\<close> makes no sampling
  attempt at all. The call itself raises TypeError, and the instrumented sampler has
  been called 0 times.
\<close>

theorem single_attempt_counterexample:
  "run_ecological_inference (counting names_sampler)
     [\<lparr>Total = FloatCell (Fin 100), White_Alone = FloatCell (Fin 70),
       DEM = FloatCell (Fin 30), REP = FloatCell (Fin 20)\<rparr>]
     [''nuts_kwargs'' \<mapsto> PyDict [(''target_accept'', PyFloat 0.9)]] (0, 0)
   = (Inl (TypeError duplicate_keyword_message), (0, 0))"
proof -
  let ?df = "[\<lparr>Total = FloatCell (Fin 100), White_Alone = FloatCell (Fin 70),
               DEM = FloatCell (Fin 30), REP = FloatCell (Fin 20)\<rparr>]"
  obtain model where m: "ecological_inference_model (num_voting_for_dems_of ?df)
      (voting_population_of ?df) (pct_minority_of ?df) 0.5 ''dem'' = Inr model"
    using table_model by blast
  show ?thesis unfolding run_unfold [OF m] by simp
qed

text \<open>
  C9, amended: the builder cannot fail inside the wrapper, because the three arrays come
  from one table; so no validation error arises there. When the caller's options name
  neither \<^verbatim>\<open>nuts_kwargs\<close> nor \<^verbatim>\<open>draws\<close>, the sampler is called exactly once and
  its result, a failure included, is returned as it is. Otherwise the call raises
  TypeError and the sampler is not called. No call samples twice.
\<close>

theorem errors_propagate:
  "(\<forall>e. ecological_inference_model (num_voting_for_dems_of df) (voting_population_of df)
          (pct_minority_of df) 0.5 ''dem'' \<noteq> Inl e) \<and>
   (\<exists>model.
      ecological_inference_model (num_voting_for_dems_of df) (voting_population_of df)
        (pct_minority_of df) 0.5 ''dem'' = Inr model \<and>
      (''nuts_kwargs'' \<notin> dom kw \<and> ''draws'' \<notin> dom kw \<longrightarrow>
         run_ecological_inference sample df kw s =
           sample model [PyInt 5000]
             (kw(''nuts_kwargs'' \<mapsto> PyDict [(''target_accept'', PyFloat 0.98)])) s \<and>
         (\<forall>e s'. sample model [PyInt 5000]
                    (kw(''nuts_kwargs'' \<mapsto> PyDict [(''target_accept'', PyFloat 0.98)])) s
                    = (Inl e, s')
                  \<longrightarrow> run_ecological_inference sample df kw s = (Inl e, s')) \<and>
         snd (snd (run_ecological_inference (counting sample) df kw (s, 0))) = 1) \<and>
      (''nuts_kwargs'' \<in> dom kw \<or> ''draws'' \<in> dom kw \<longrightarrow>
         run_ecological_inference sample df kw s =
           (Inl (TypeError (if ''nuts_kwargs'' \<in> dom kw then duplicate_keyword_message
                            else duplicate_argument_message)), s) \<and>
         snd (snd (run_ecological_inference (counting sample) df kw (s, 0))) = 0))"
proof -
  obtain model where m: "ecological_inference_model (num_voting_for_dems_of df)
      (voting_population_of df) (pct_minority_of df) 0.5 ''dem'' = Inr model"
    using table_model by blast
  let ?kws = "kw(''nuts_kwargs'' \<mapsto> PyDict [(''target_accept'', PyFloat 0.98)])"
  have noerr: "\<forall>e. ecological_inference_model (num_voting_for_dems_of df)
      (voting_population_of df) (pct_minority_of df) 0.5 ''dem'' \<noteq> Inl e"
    unfolding m by (simp only: sum.distinct not_False_eq_True simp_thms)
  have free: "run_ecological_inference sample df kw s = sample model [PyInt 5000] ?kws s \<and>
         (\<forall>e s'. sample model [PyInt 5000] ?kws s = (Inl e, s')
                  \<longrightarrow> run_ecological_inference sample df kw s = (Inl e, s')) \<and>
         snd (snd (run_ecological_inference (counting sample) df kw (s, 0))) = 1"
    if h: "''nuts_kwargs'' \<notin> dom kw \<and> ''draws'' \<notin> dom kw"
  proof -
    from h have k: "''nuts_kwargs'' \<notin> dom kw" "''draws'' \<notin> dom kw" by simp_all
    have r: "run_ecological_inference sample df kw s = sample model [PyInt 5000] ?kws s"
      by (rule run_collision_free [OF m k])
    have p: "\<forall>e s'. sample model [PyInt 5000] ?kws s = (Inl e, s')
                  \<longrightarrow> run_ecological_inference sample df kw s = (Inl e, s')"
      unfolding r by (simp only: simp_thms)
    have c: "snd (snd (run_ecological_inference (counting sample) df kw (s, 0))) = 1"
      unfolding run_collision_free [OF m k] by (simp only: counting_calls One_nat_def)
    from r p c show ?thesis by (intro conjI)
  qed
  have coll: "run_ecological_inference sample df kw s =
           (Inl (TypeError (if ''nuts_kwargs'' \<in> dom kw then duplicate_keyword_message
                            else duplicate_argument_message)), s) \<and>
         snd (snd (run_ecological_inference (counting sample) df kw (s, 0))) = 0"
    if h: "''nuts_kwargs'' \<in> dom kw \<or> ''draws'' \<in> dom kw"
  proof -
    have r: "run_ecological_inference sample df kw s =
           (Inl (TypeError (if ''nuts_kwargs'' \<in> dom kw then duplicate_keyword_message
                            else duplicate_argument_message)), s)"
      by (rule run_collision [OF m h])
    have c: "snd (snd (run_ecological_inference (counting sample) df kw (s, 0))) = 0"
      unfolding run_collision [OF m h] by (simp only: snd_conv)
    from r c show ?thesis by (rule conjI)
  qed
  from free have free': "''nuts_kwargs'' \<notin> dom kw \<and> ''draws'' \<notin> dom kw \<longrightarrow>
         run_ecological_inference sample df kw s = sample model [PyInt 5000] ?kws s \<and>
         (\<forall>e s'. sample model [PyInt 5000] ?kws s = (Inl e, s')
                  \<longrightarrow> run_ecological_inference sample df kw s = (Inl e, s')) \<and>
         snd (snd (run_ecological_inference (counting sample) df kw (s, 0))) = 1"
    by (rule impI)
  from coll have coll': "''nuts_kwargs'' \<in> dom kw \<or> ''draws'' \<in> dom kw \<longrightarrow>
         run_ecological_inference sample df kw s =
           (Inl (TypeError (if ''nuts_kwargs'' \<in> dom kw then duplicate_keyword_message
                            else duplicate_argument_message)), s) \<and>
         snd (snd (run_ecological_inference (counting sample) df kw (s, 0))) = 0"
    by (rule impI)
  show ?thesis
    by (rule conjI [OF noerr]) (intro exI [of _ model] conjI m free' coll')
qed


theorem errors_propagate_witness:
  "run_ecological_inference failing_sampler
     [\<lparr>Total = FloatCell (Fin 100), White_Alone = FloatCell (Fin 70),
       DEM = FloatCell (Fin 30), REP = FloatCell (Fin 20)\<rparr>] [''chains'' \<mapsto> PyInt 2] 0
     = (Inl (SamplingError ''Bad initial energy''), 1) \<and>
   snd (snd (run_ecological_inference (counting failing_sampler)
     [\<lparr>Total = FloatCell (Fin 100), White_Alone = FloatCell (Fin 70),
       DEM = FloatCell (Fin 30), REP = FloatCell (Fin 20)\<rparr>] [''chains'' \<mapsto> PyInt 2] (0, 0))) = 1 \<and>
   snd (snd (run_ecological_inference (counting failing_sampler)
     [\<lparr>Total = FloatCell (Fin 100), White_Alone = FloatCell (Fin 70),
       DEM = FloatCell (Fin 30), REP = FloatCell (Fin 20)\<rparr>] [''draws'' \<mapsto> PyInt 1000] (0, 0))) = 0"
proof -
  let ?df = "[\<lparr>Total = FloatCell (Fin 100), White_Alone = FloatCell (Fin 70),
               DEM = FloatCell (Fin 30), REP = FloatCell (Fin 20)\<rparr>]"
  let ?kw = "[''chains'' \<mapsto> PyInt 2]"
  let ?kd = "[''draws'' \<mapsto> PyInt 1000]"
  let ?kws = "?kw(''nuts_kwargs'' \<mapsto> PyDict [(''target_accept'', PyFloat 0.98)])"
  have h: "''nuts_kwargs'' \<notin> dom ?kw \<and> ''draws'' \<notin> dom ?kw" by simp
  have hd: "''nuts_kwargs'' \<in> dom ?kd \<or> ''draws'' \<in> dom ?kd" by simp
  from errors_propagate [of ?df ?kw failing_sampler 0]
  obtain model where
    free: "''nuts_kwargs'' \<notin> dom ?kw \<and> ''draws'' \<notin> dom ?kw \<longrightarrow>
         run_ecological_inference failing_sampler ?df ?kw 0 =
           failing_sampler model [PyInt 5000] ?kws 0 \<and>
         (\<forall>e s'. failing_sampler model [PyInt 5000] ?kws 0 = (Inl e, s')
                  \<longrightarrow> run_ecological_inference failing_sampler ?df ?kw 0 = (Inl e, s')) \<and>
         snd (snd (run_ecological_inference (counting failing_sampler) ?df ?kw (0, 0))) = 1"
    by (elim exE conjE) (rule that)
  from free h have
    p: "\<forall>e s'. failing_sampler model [PyInt 5000] ?kws 0 = (Inl e, s')
                  \<longrightarrow> run_ecological_inference failing_sampler ?df ?kw 0 = (Inl e, s')" and
    c: "snd (snd (run_ecological_inference (counting failing_sampler) ?df ?kw (0, 0))) = 1"
    by (simp_all only: simp_thms)
  have f: "failing_sampler model [PyInt 5000] ?kws 0
             = (Inl (SamplingError ''Bad initial energy''), 1)"
    unfolding failing_sampler_def by (simp only: One_nat_def)
  from p [rule_format, OF f]
  have a: "run_ecological_inference failing_sampler ?df ?kw 0
             = (Inl (SamplingError ''Bad initial energy''), 1)" .
  from errors_propagate [of ?df ?kd failing_sampler 0]
  obtain model' where
    coll: "''nuts_kwargs'' \<in> dom ?kd \<or> ''draws'' \<in> dom ?kd \<longrightarrow>
         run_ecological_inference failing_sampler ?df ?kd 0 =
           (Inl (TypeError (if ''nuts_kwargs'' \<in> dom ?kd then duplicate_keyword_message
                            else duplicate_argument_message)), 0) \<and>
         snd (snd (run_ecological_inference (counting failing_sampler) ?df ?kd (0, 0))) = 0"
    by (elim exE conjE) (rule that)
  from coll [rule_format, OF hd]
  have z: "snd (snd (run_ecological_inference (counting failing_sampler) ?df ?kd (0, 0))) = 0"
    by (rule conjunct2)
  from a c z show ?thesis by (intro conjI)
qed

text \<open>
  C10, as stated, fails: a nonzero total does not make the fraction finite. With the
  finite entries \<open>Total = 1e308\<close> and \<open>White Alone = -1e308\<close> the difference overflows
  and the fraction is infinite; with a NaN total the fraction is NaN.
\<close>

theorem total_nonzero_counterexample:
  "as_float (Total \<lparr>Total = FloatCell (Fin (10 ^ 308)), White_Alone = FloatCell (Fin (- (10 ^ 308))),
                     DEM = FloatCell (Fin 30), REP = FloatCell (Fin 20)\<rparr>) \<noteq> Fin 0 \<and>
   pct_minority_of [\<lparr>Total = FloatCell (Fin (10 ^ 308)), White_Alone = FloatCell (Fin (- (10 ^ 308))),
                     DEM = FloatCell (Fin 30), REP = FloatCell (Fin 20)\<rparr>] ! 0 = PosInf \<and>
   as_float (Total \<lparr>Total = FloatCell NaN, White_Alone = FloatCell (Fin 70),
                     DEM = FloatCell (Fin 30), REP = FloatCell (Fin 20)\<rparr>) \<noteq> Fin 0 \<and>
   pct_minority_of [\<lparr>Total = FloatCell NaN, White_Alone = FloatCell (Fin 70),
                     DEM = FloatCell (Fin 30), REP = FloatCell (Fin 20)\<rparr>] ! 0 = NaN"
proof -
  have a: "saturate (Fin (10 ^ 308 + 10 ^ 308)) = PosInf"
    using max_float_overflow by simp
  have s1: "cell_sub (FloatCell (Fin (10 ^ 308))) (FloatCell (Fin (- (10 ^ 308))))
              = FloatCell PosInf"
    by (simp only: cell_sub.simps as_float.simps fsub_def fneg.simps fadd.simps minus_minus a)
  have s2: "cell_truediv (FloatCell PosInf) (FloatCell (Fin (10 ^ 308))) = PosInf"
    by (simp add: cell_truediv_def)
  have b: "pct_minority_of [\<lparr>Total = FloatCell (Fin (10 ^ 308)),
                     White_Alone = FloatCell (Fin (- (10 ^ 308))),
                     DEM = FloatCell (Fin 30), REP = FloatCell (Fin 20)\<rparr>] ! 0 = PosInf"
    unfolding pct_minority_of_def
    by (simp only: list.map nth_Cons_0 row.simps s1 s2)
  have c: "pct_minority_of [\<lparr>Total = FloatCell NaN, White_Alone = FloatCell (Fin 70),
                     DEM = FloatCell (Fin 30), REP = FloatCell (Fin 20)\<rparr>] ! 0 = NaN"
    by (simp add: pct_minority_of_def cell_truediv_def fsub_def)
  from b c show ?thesis by simp
qed

text \<open>
  C10, amended: the division by the \<open>Total\<close> column is not guarded and the wrapper
  raises no validation error for any table: it goes on to the sampling call with the
  model built from the derived arrays. In a row whose \<open>Total\<close> and \<open>White Alone\<close> are
  finite float64 numbers with a nonzero total, where neither the difference nor the
  quotient overflows, and in a row of int64 numbers with a nonzero total whose
  difference does not wrap, the fraction is the finite number
  \<open>(Total - White Alone) / Total\<close>. In every row whose total is zero the fraction is not
  a finite number.
\<close>

theorem total_zero_division:
  "(\<forall>i<length df. \<forall>T W.
      Total (df ! i) = FloatCell (Fin T) \<and> White_Alone (df ! i) = FloatCell (Fin W) \<and>
      T \<noteq> 0 \<and> \<bar>T - W\<bar> \<le> max_float \<and> \<bar>(T - W) / T\<bar> \<le> max_float
      \<longrightarrow> is_finite (pct_minority_of df ! i) \<and> pct_minority_of df ! i = Fin ((T - W) / T)) \<and>
   (\<forall>i<length df. \<forall>t w.
      Total (df ! i) = IntCell t \<and> White_Alone (df ! i) = IntCell w \<and>
      t \<noteq> 0 \<and> - (2 ^ 63) \<le> t - w \<and> t - w < 2 ^ 63
      \<longrightarrow> is_finite (pct_minority_of df ! i) \<and>
          pct_minority_of df ! i = Fin (real_of_int (t - w) / real_of_int t)) \<and>
   (\<forall>i<length df. as_float (Total (df ! i)) = Fin 0 \<longrightarrow> \<not> is_finite (pct_minority_of df ! i)) \<and>
   (\<exists>model.
      ecological_inference_model (num_voting_for_dems_of df) (voting_population_of df)
        (pct_minority_of df) 0.5 ''dem'' = Inr model \<and>
      run_ecological_inference sample df kw s =
        (if ''nuts_kwargs'' \<in> dom kw then (Inl (TypeError duplicate_keyword_message), s)
         else if ''draws'' \<in> dom kw then (Inl (TypeError duplicate_argument_message), s)
         else sample model [PyInt 5000]
                (kw(''nuts_kwargs'' \<mapsto> PyDict [(''target_accept'', PyFloat 0.98)])) s))"
proof -
  obtain model where m: "ecological_inference_model (num_voting_for_dems_of df)
      (voting_population_of df) (pct_minority_of df) 0.5 ''dem'' = Inr model"
    using table_model by blast
  have ff: "is_finite (pct_minority_of df ! i) \<and> pct_minority_of df ! i = Fin ((T - W) / T)"
    if i: "i < length df" and
       h: "Total (df ! i) = FloatCell (Fin T) \<and> White_Alone (df ! i) = FloatCell (Fin W) \<and>
        T \<noteq> 0 \<and> \<bar>T - W\<bar> \<le> max_float \<and> \<bar>(T - W) / T\<bar> \<le> max_float" for i T W
  proof -
    from h have e: "Total (df ! i) = FloatCell (Fin T)" "White_Alone (df ! i) = FloatCell (Fin W)"
      and c: "\<bar>T - W\<bar> \<le> max_float" "T \<noteq> 0" "\<bar>(T - W) / T\<bar> \<le> max_float"
      by simp_all
    have "pct_minority_of df ! i = Fin ((T - W) / T)"
      unfolding pct_minority_nth [OF i] e by (rule float_fraction [OF c])
    then show ?thesis by (simp add: is_finite_def)
  qed
  have fi: "is_finite (pct_minority_of df ! i) \<and>
          pct_minority_of df ! i = Fin (real_of_int (t - w) / real_of_int t)"
    if i: "i < length df" and
       h: "Total (df ! i) = IntCell t \<and> White_Alone (df ! i) = IntCell w \<and>
        t \<noteq> 0 \<and> - (2 ^ 63) \<le> t - w \<and> t - w < 2 ^ 63" for i t w
  proof -
    from h have e: "Total (df ! i) = IntCell t" "White_Alone (df ! i) = IntCell w"
      and c: "- (2 ^ 63) \<le> t - w" "t - w < 2 ^ 63" "t \<noteq> 0"
      by simp_all
    have "pct_minority_of df ! i = Fin (real_of_int (t - w) / real_of_int t)"
      unfolding pct_minority_nth [OF i] e by (rule int_fraction [OF c])
    then show ?thesis by (simp add: is_finite_def)
  qed
  have z: "\<not> is_finite (pct_minority_of df ! i)"
    if i: "i < length df" and h: "as_float (Total (df ! i)) = Fin 0" for i
    unfolding pct_minority_nth [OF i] by (rule zero_total_not_finite [OF h])
  from ff have ff': "\<forall>i<length df. \<forall>T W.
      Total (df ! i) = FloatCell (Fin T) \<and> White_Alone (df ! i) = FloatCell (Fin W) \<and>
      T \<noteq> 0 \<and> \<bar>T - W\<bar> \<le> max_float \<and> \<bar>(T - W) / T\<bar> \<le> max_float
      \<longrightarrow> is_finite (pct_minority_of df ! i) \<and> pct_minority_of df ! i = Fin ((T - W) / T)"
    by blast
  from fi have fi': "\<forall>i<length df. \<forall>t w.
      Total (df ! i) = IntCell t \<and> White_Alone (df ! i) = IntCell w \<and>
      t \<noteq> 0 \<and> - (2 ^ 63) \<le> t - w \<and> t - w < 2 ^ 63
      \<longrightarrow> is_finite (pct_minority_of df ! i) \<and>
          pct_minority_of df ! i = Fin (real_of_int (t - w) / real_of_int t)"
    by blast
  from z have z': "\<forall>i<length df. as_float (Total (df ! i)) = Fin 0 \<longrightarrow>
      \<not> is_finite (pct_minority_of df ! i)"
    by blast
  show ?thesis
    by (intro conjI ff' fi' z' exI [of _ model] m run_unfold [OF m])
qed


theorem total_zero_division_witness:
  "pct_minority_of
     [\<lparr>Total = FloatCell (Fin 100), White_Alone = FloatCell (Fin 70),
       DEM = FloatCell (Fin 30), REP = FloatCell (Fin 20)\<rparr>,
      \<lparr>Total = FloatCell (Fin 0), White_Alone = FloatCell (Fin 0),
       DEM = FloatCell (Fin 0), REP = FloatCell (Fin 0)\<rparr>] ! 0 = Fin 0.3 \<and>
   \<not> is_finite (pct_minority_of
     [\<lparr>Total = FloatCell (Fin 100), White_Alone = FloatCell (Fin 70),
       DEM = FloatCell (Fin 30), REP = FloatCell (Fin 20)\<rparr>,
      \<lparr>Total = FloatCell (Fin 0), White_Alone = FloatCell (Fin 0),
       DEM = FloatCell (Fin 0), REP = FloatCell (Fin 0)\<rparr>] ! 1) \<and>
   (\<exists>model.
      ecological_inference_model
        (num_voting_for_dems_of
     [\<lparr>Total = FloatCell (Fin 100), White_Alone = FloatCell (Fin 70),
       DEM = FloatCell (Fin 30), REP = FloatCell (Fin 20)\<rparr>,
      \<lparr>Total = FloatCell (Fin 0), White_Alone = FloatCell (Fin 0),
       DEM = FloatCell (Fin 0), REP = FloatCell (Fin 0)\<rparr>])
        (voting_population_of
     [\<lparr>Total = FloatCell (Fin 100), White_Alone = FloatCell (Fin 70),
       DEM = FloatCell (Fin 30), REP = FloatCell (Fin 20)\<rparr>,
      \<lparr>Total = FloatCell (Fin 0), White_Alone = FloatCell (Fin 0),
       DEM = FloatCell (Fin 0), REP = FloatCell (Fin 0)\<rparr>])
        (pct_minority_of
     [\<lparr>Total = FloatCell (Fin 100), White_Alone = FloatCell (Fin 70),
       DEM = FloatCell (Fin 30), REP = FloatCell (Fin 20)\<rparr>,
      \<lparr>Total = FloatCell (Fin 0), White_Alone = FloatCell (Fin 0),
       DEM = FloatCell (Fin 0), REP = FloatCell (Fin 0)\<rparr>]) 0.5 ''dem'' = Inr model \<and>
      run_ecological_inference names_sampler
     [\<lparr>Total = FloatCell (Fin 100), White_Alone = FloatCell (Fin 70),
       DEM = FloatCell (Fin 30), REP = FloatCell (Fin 20)\<rparr>,
      \<lparr>Total = FloatCell (Fin 0), White_Alone = FloatCell (Fin 0),
       DEM = FloatCell (Fin 0), REP = FloatCell (Fin 0)\<rparr>] [''chains'' \<mapsto> PyInt 2] 0 = (Inr (map fst model), 1))"
proof -
  let ?df = "[\<lparr>Total = FloatCell (Fin 100), White_Alone = FloatCell (Fin 70),
       DEM = FloatCell (Fin 30), REP = FloatCell (Fin 20)\<rparr>,
      \<lparr>Total = FloatCell (Fin 0), White_Alone = FloatCell (Fin 0),
       DEM = FloatCell (Fin 0), REP = FloatCell (Fin 0)\<rparr>]"
  let ?kw = "[''chains'' \<mapsto> PyInt 2]"
  from total_zero_division [of ?df names_sampler ?kw 0]
  obtain model where
    ff: "\<forall>i<length ?df. \<forall>T W.
      Total (?df ! i) = FloatCell (Fin T) \<and> White_Alone (?df ! i) = FloatCell (Fin W) \<and>
      T \<noteq> 0 \<and> \<bar>T - W\<bar> \<le> max_float \<and> \<bar>(T - W) / T\<bar> \<le> max_float
      \<longrightarrow> is_finite (pct_minority_of ?df ! i) \<and> pct_minority_of ?df ! i = Fin ((T - W) / T)" and
    z: "\<forall>i<length ?df. as_float (Total (?df ! i)) = Fin 0 \<longrightarrow>
      \<not> is_finite (pct_minority_of ?df ! i)" and
    m: "ecological_inference_model (num_voting_for_dems_of ?df) (voting_population_of ?df)
          (pct_minority_of ?df) 0.5 ''dem'' = Inr model" and
    r: "run_ecological_inference names_sampler ?df ?kw 0 =
        (if ''nuts_kwargs'' \<in> dom ?kw then (Inl (TypeError duplicate_keyword_message), 0)
         else if ''draws'' \<in> dom ?kw then (Inl (TypeError duplicate_argument_message), 0)
         else names_sampler model [PyInt 5000]
                (?kw(''nuts_kwargs'' \<mapsto> PyDict [(''target_accept'', PyFloat 0.98)])) 0)"
    by (elim exE conjE) (rule that)
  have i0: "0 < length ?df" and i1: "1 < length ?df" by simp_all
  have "is_finite (pct_minority_of ?df ! 0) \<and> pct_minority_of ?df ! 0 = Fin ((100 - 70) / 100)"
    by (rule ff [rule_format, OF i0]) (simp add: max_float_def)
  then have a: "pct_minority_of ?df ! 0 = Fin 0.3" by simp
  have b: "\<not> is_finite (pct_minority_of ?df ! 1)"
    by (rule z [rule_format, OF i1]) simp
  have k: "''nuts_kwargs'' \<notin> dom ?kw" "''draws'' \<notin> dom ?kw" by simp_all
  have ns: "names_sampler model [PyInt 5000]
              (?kw(''nuts_kwargs'' \<mapsto> PyDict [(''target_accept'', PyFloat 0.98)])) 0
            = (Inr (map fst model), 1)"
    unfolding names_sampler_def by (simp only: One_nat_def)
  from r k have "run_ecological_inference names_sampler ?df ?kw 0 = (Inr (map fst model), 1)"
    by (simp only: if_False ns)
  with m have d: "\<exists>model.
      ecological_inference_model (num_voting_for_dems_of ?df) (voting_population_of ?df)
        (pct_minority_of ?df) 0.5 ''dem'' = Inr model \<and>
      run_ecological_inference names_sampler ?df ?kw 0 = (Inr (map fst model), 1)"
    by (intro exI [of _ model] conjI)
  from a b d show ?thesis by (intro conjI)
qed

end
